theory Spec2Isabelle
  imports Complex_Main "HOL-Library.AList"
begin

section \<open>Python values shared by the modules\<close>

text \<open>
  A JSON-compatible Python value (\<open>Any\<close> in the type hints of the source): what
  \<open>json.loads\<close> returns and what a message payload holds. A dict is an association list in
  insertion order with unique keys.
\<close>

datatype json =
    JNull
  | JBool bool
  | JInt int
  | JFloat real
  | JStr string
  | JList "json list"
  | JDict "(string \<times> json) list"

text \<open>
  The exceptions the modelled code raises, as values. \<open>DBAPIError\<close> is the error
  SQLAlchemy raises when the driver refuses a statement; \<open>LookupError\<close> is the one its
  \<open>Enum\<close> type raises for a stored text that is not the name of a member.
\<close>

datatype error =
    ValueError string
  | KeyError string
  | TypeError
  | AttributeError
  | JSONDecodeError
  | RuntimeError
  | LookupError
  | DBAPIError
  | OverflowError

text \<open>
  A naive UTC \<open>datetime\<close> is a count of microseconds; \<open>timedelta(minutes=m)\<close> is
  \<open>m\<close> minutes in that unit.
\<close>

type_synonym datetime = int

definition timedelta_minutes :: "int \<Rightarrow> int" where
  "timedelta_minutes m = m * 60000000"

section \<open>shared/database/models.py\<close>

datatype ViolationType =
    APPLICATION_BLOCKED
  | PROCESS_TERMINATION_ATTEMPT
  | FACE_ABSENCE
  | MULTIPLE_FACES
  | SUSPICIOUS_MOVEMENT
  | VOICE_ACTIVITY
  | MULTIPLE_SPEAKERS
  | SCREEN_SWITCH
  | SHORTCUT_BLOCKED
  | UNAUTHORIZED_WEBSITE

datatype ViolationSeverity = LOW | MEDIUM | HIGH | CRITICAL

datatype PermissionStatus = PENDING | APPROVED | REJECTED | EXPIRED

fun PermissionStatus_name :: "PermissionStatus \<Rightarrow> string" where
  "PermissionStatus_name PENDING = ''PENDING''"
| "PermissionStatus_name APPROVED = ''APPROVED''"
| "PermissionStatus_name REJECTED = ''REJECTED''"
| "PermissionStatus_name EXPIRED = ''EXPIRED''"

fun PermissionStatus_value :: "PermissionStatus \<Rightarrow> string" where
  "PermissionStatus_value PENDING = ''pending''"
| "PermissionStatus_value APPROVED = ''approved''"
| "PermissionStatus_value REJECTED = ''rejected''"
| "PermissionStatus_value EXPIRED = ''expired''"

text \<open>
  A column of type \<open>Enum(PermissionStatus)\<close> holds a text. A member assigned to it is
  stored as its name; a string assigned to it is stored as it is. When a row is loaded the
  text is looked up among the names of the members, and a text that is no name raises
  \<open>LookupError\<close>.
\<close>

definition PermissionStatus_load :: "string \<Rightarrow> error + PermissionStatus" where
  "PermissionStatus_load stored =
     (case find (\<lambda>m. PermissionStatus_name m = stored) [PENDING, APPROVED, REJECTED, EXPIRED] of
        None \<Rightarrow> Inl LookupError
      | Some m \<Rightarrow> Inr m)"

text \<open>
  What a \<open>String\<close> or \<open>Text\<close> column holds after a Python value is bound to it:
  NULL for \<open>None\<close>, the string itself, and for a number (a bool included) the text form
  SQLite converts it to, kept here as \<open>NumberText\<close> of the number. The driver refuses a
  list or a dict, and an integer beyond 64 bits.
\<close>

datatype cell = Null | Text string | NumberText json

definition int64 :: "int \<Rightarrow> bool" where
  "int64 n = (- (2 ^ 63) \<le> n \<and> n < 2 ^ 63)"

definition bind_text :: "json \<Rightarrow> error + cell" where
  "bind_text v =
     (case v of
        JNull \<Rightarrow> Inr Null
      | JStr s \<Rightarrow> Inr (Text s)
      | JBool b \<Rightarrow> Inr (NumberText (JBool b))
      | JInt n \<Rightarrow>
          if int64 n then Inr (NumberText (JInt n)) else Inl OverflowError
      | JFloat r \<Rightarrow> Inr (NumberText (JFloat r))
      | JList _ \<Rightarrow> Inl DBAPIError
      | JDict _ \<Rightarrow> Inl DBAPIError)"

text \<open>
  One row of table \<open>participants\<close>. \<open>p_id\<close> is the integer primary key \<open>id\<close>;
  \<open>participant_id\<close> is the unique external identifier. The keys and the counters are
  taken to stay within the 64-bit integers of SQLite, and the dates within the range of
  \<open>datetime\<close>.
\<close>

record Participant =
  p_id :: int
  participant_id :: string
  name :: string
  exam_session_id :: int
  computer_ip :: cell
  computer_name :: cell
  joined_at :: datetime
  last_heartbeat :: datetime
  is_active :: bool
  integrity_score :: real
  warning_count :: int
  violation_count :: int
  is_locked :: bool

text \<open>One row of table \<open>violations\<close>; \<open>v_participant_id\<close> is the foreign key to \<open>p_id\<close>.\<close>

record Violation =
  v_id :: int
  v_participant_id :: int
  v_exam_session_id :: int
  violation_type :: ViolationType
  severity :: ViolationSeverity
  description :: cell
  v_timestamp :: datetime
  is_resolved :: bool

text \<open>
  One row of table \<open>permission_requests\<close>; \<open>r_participant_id\<close> is the foreign key and
  \<open>status\<close> the text stored in the \<open>Enum(PermissionStatus)\<close> column.
\<close>

record PermissionRequest =
  r_id :: int
  r_participant_id :: int
  request_type :: cell
  status :: string
  requested_at :: datetime
  approved_at :: "datetime option"
  expires_at :: "datetime option"
  duration_minutes :: int
  reason :: cell

section \<open>shared/database/database_manager.py\<close>

text \<open>
  The database is the committed content of its tables, each in row order. Every operation
  of \<open>DatabaseManager\<close> runs in a session of its own that commits on normal exit and is
  discarded when the body raises, so an operation maps a committed state to a committed
  state. The clock read by \<open>datetime.utcnow()\<close> during a call is the argument \<open>now\<close>.
\<close>

record database =
  participants :: "Participant list"
  violations :: "Violation list"
  permission_requests :: "PermissionRequest list"

text \<open>\<open>query.filter_by(...).first()\<close> is \<open>find\<close> on the table; an attribute assignment on
  the row it returned rewrites that row.\<close>

fun update_first :: "('a \<Rightarrow> bool) \<Rightarrow> ('a \<Rightarrow> 'a) \<Rightarrow> 'a list \<Rightarrow> 'a list" where
  "update_first P f [] = []"
| "update_first P f (x # xs) = (if P x then f x # xs else x # update_first P f xs)"

text \<open>The primary key SQLite gives the next inserted row.\<close>

definition next_id :: "int list \<Rightarrow> int" where
  "next_id ids = fold max ids 0 + 1"

definition get_participant :: "database \<Rightarrow> string \<Rightarrow> Participant option" where
  "get_participant d pid = find (\<lambda>p. participant_id p = pid) (participants d)"

definition update_participant_heartbeat :: "datetime \<Rightarrow> database \<Rightarrow> string \<Rightarrow> database" where
  "update_participant_heartbeat now d pid =
     (case find (\<lambda>p. participant_id p = pid) (participants d) of
        None \<Rightarrow> d
      | Some _ \<Rightarrow>
          d\<lparr>participants := update_first (\<lambda>p. participant_id p = pid)
               (\<lambda>p. p\<lparr>last_heartbeat := now, is_active := True\<rparr>) (participants d)\<rparr>)"

definition update_integrity_score :: "database \<Rightarrow> string \<Rightarrow> real \<Rightarrow> database" where
  "update_integrity_score d pid score =
     (case find (\<lambda>p. participant_id p = pid) (participants d) of
        None \<Rightarrow> d
      | Some _ \<Rightarrow>
          d\<lparr>participants := update_first (\<lambda>p. participant_id p = pid)
               (\<lambda>p. p\<lparr>integrity_score := max 0 (min 100 score)\<rparr>) (participants d)\<rparr>)"

definition increment_warning_count :: "database \<Rightarrow> string \<Rightarrow> database" where
  "increment_warning_count d pid =
     (case find (\<lambda>p. participant_id p = pid) (participants d) of
        None \<Rightarrow> d
      | Some _ \<Rightarrow>
          d\<lparr>participants := update_first (\<lambda>p. participant_id p = pid)
               (\<lambda>p. p\<lparr>warning_count := warning_count p + 1\<rparr>) (participants d)\<rparr>)"

definition lock_participant :: "database \<Rightarrow> string \<Rightarrow> bool \<Rightarrow> database" where
  "lock_participant d pid locked =
     (case find (\<lambda>p. participant_id p = pid) (participants d) of
        None \<Rightarrow> d
      | Some _ \<Rightarrow>
          d\<lparr>participants := update_first (\<lambda>p. participant_id p = pid)
               (\<lambda>p. p\<lparr>is_locked := locked\<rparr>) (participants d)\<rparr>)"

text \<open>
  \<open>create_violation\<close> and \<open>create_permission_request\<close> return the outcome of the call
  (the exception raised, or the new row) together with the database afterwards. The
  participant is looked up first; the values are bound when the session is flushed, and
  a refused value ends the call with nothing written.
\<close>

definition not_found :: "string \<Rightarrow> error" where
  "not_found pid = ValueError (''Participant '' @ pid @ '' not found'')"

definition create_violation ::
  "datetime \<Rightarrow> database \<Rightarrow> string \<Rightarrow> int \<Rightarrow> ViolationType \<Rightarrow> ViolationSeverity \<Rightarrow> json
     \<Rightarrow> (error + Violation) \<times> database" where
  "create_violation now d pid sid vtype sev descr =
     (case find (\<lambda>p. participant_id p = pid) (participants d) of
        None \<Rightarrow> (Inl (not_found pid), d)
      | Some participant \<Rightarrow>
          (case bind_text descr of
             Inl e \<Rightarrow> (Inl e, d)
           | Inr stored \<Rightarrow>
               (let violation = \<lparr>v_id = next_id (map v_id (violations d)),
                                 v_participant_id = p_id participant,
                                 v_exam_session_id = sid,
                                 violation_type = vtype,
                                 severity = sev,
                                 description = stored,
                                 v_timestamp = now,
                                 is_resolved = False\<rparr>
                in (Inr violation,
                    d\<lparr>violations := violations d @ [violation],
                      participants := update_first (\<lambda>p. participant_id p = pid)
                        (\<lambda>p. p\<lparr>violation_count := violation_count p + 1\<rparr>) (participants d)\<rparr>))))"

text \<open>
  \<open>create_permission_request\<close> inserts the row with the string \<open>'pending'\<close> as its
  status and then reloads it with \<open>session.refresh\<close>; the exception of the reload leaves
  the session uncommitted.
\<close>

definition create_permission_request ::
  "datetime \<Rightarrow> database \<Rightarrow> string \<Rightarrow> json \<Rightarrow> int \<Rightarrow> json
     \<Rightarrow> (error + PermissionRequest) \<times> database" where
  "create_permission_request now d pid rtype duration rsn =
     (case find (\<lambda>p. participant_id p = pid) (participants d) of
        None \<Rightarrow> (Inl (not_found pid), d)
      | Some participant \<Rightarrow>
          (case (bind_text rtype, bind_text rsn) of
             (Inl e, _) \<Rightarrow> (Inl e, d)
           | (Inr _, Inl e) \<Rightarrow> (if int64 duration then (Inl e, d) else (Inl OverflowError, d))
           | (Inr stored_type, Inr stored_reason) \<Rightarrow>
               if \<not> int64 duration then (Inl OverflowError, d)
               else
               (let request = \<lparr>r_id = next_id (map r_id (permission_requests d)),
                               r_participant_id = p_id participant,
                               request_type = stored_type,
                               status = ''pending'',
                               requested_at = now,
                               approved_at = None,
                               expires_at = None,
                               duration_minutes = duration,
                               reason = stored_reason\<rparr>
                in case PermissionStatus_load (status request) of
                     Inl e \<Rightarrow> (Inl e, d)
                   | Inr _ \<Rightarrow>
                       (Inr request,
                        d\<lparr>permission_requests := permission_requests d @ [request]\<rparr>))))"

text \<open>
  \<open>approve_permission_request\<close> returns the outcome of the call (the exception raised,
  or its boolean result) and the database afterwards. Loading the row looks its status up;
  the test \<open>request.status.value == 'pending'\<close> is on the member loaded; the assignment
  stores the string \<open>'approved'\<close>. The body reads the clock twice: \<open>now1\<close> is the
  value stored as \<open>approved_at\<close>, \<open>now2\<close> the value \<open>expires_at\<close> is computed from.
\<close>

definition approve_permission_request ::
  "datetime \<Rightarrow> datetime \<Rightarrow> database \<Rightarrow> int \<Rightarrow> (error + bool) \<times> database" where
  "approve_permission_request now1 now2 d request_id =
     (case find (\<lambda>r. r_id r = request_id) (permission_requests d) of
        None \<Rightarrow> (Inr False, d)
      | Some request \<Rightarrow>
          (case PermissionStatus_load (status request) of
             Inl e \<Rightarrow> (Inl e, d)
           | Inr member \<Rightarrow>
               if PermissionStatus_value member = ''pending''
               then (Inr True,
                     d\<lparr>permission_requests := update_first (\<lambda>r. r_id r = request_id)
                         (\<lambda>r. r\<lparr>status := ''approved'',
                                approved_at := Some now1,
                                expires_at := Some (now2 + timedelta_minutes (duration_minutes r))\<rparr>)
                         (permission_requests d)\<rparr>)
               else (Inr False, d)))"

text \<open>
  \<open>get_active_permission\<close>: the filter compares the stored text with the string
  \<open>'approved'\<close>, and the SQL comparison \<open>expires_at > now\<close> is false on a NULL
  \<open>expires_at\<close>; the first row that passes is then loaded.
\<close>

definition get_active_permission ::
  "datetime \<Rightarrow> database \<Rightarrow> string \<Rightarrow> error + PermissionRequest option" where
  "get_active_permission now d pid =
     (case find (\<lambda>p. participant_id p = pid) (participants d) of
        None \<Rightarrow> Inr None
      | Some participant \<Rightarrow>
          (case find (\<lambda>r. r_participant_id r = p_id participant \<and> status r = ''approved'' \<and>
                         (case expires_at r of None \<Rightarrow> False | Some e \<Rightarrow> e > now))
                    (permission_requests d) of
             None \<Rightarrow> Inr None
           | Some request \<Rightarrow>
               (case PermissionStatus_load (status request) of
                  Inl e \<Rightarrow> Inl e
                | Inr _ \<Rightarrow> Inr (Some request))))"

section \<open>Python built-ins used by the handlers\<close>

text \<open>Truth value of a Python value, as \<open>or\<close>, \<open>not\<close> and \<open>if\<close> test it.\<close>

fun truthy :: "json \<Rightarrow> bool" where
  "truthy JNull = False"
| "truthy (JBool b) = b"
| "truthy (JInt i) = (i \<noteq> 0)"
| "truthy (JFloat r) = (r \<noteq> 0)"
| "truthy (JStr s) = (s \<noteq> [])"
| "truthy (JList xs) = (xs \<noteq> [])"
| "truthy (JDict kv) = (kv \<noteq> [])"

text \<open>\<open>d.get(key, default)\<close>; only a dict has the method.\<close>

definition dict_get :: "json \<Rightarrow> string \<Rightarrow> json \<Rightarrow> error + json" where
  "dict_get d key dflt =
     (case d of
        JDict kv \<Rightarrow> Inr (case map_of kv key of None \<Rightarrow> dflt | Some v \<Rightarrow> v)
      | _ \<Rightarrow> Inl AttributeError)"

section \<open>shared/networking/protocol.py\<close>

datatype MessageType =
    REGISTER
  | HEARTBEAT
  | VIOLATION_REPORT
  | PERMISSION_REQUEST
  | STATUS_UPDATE
  | REGISTER_ACK
  | CONFIG_UPDATE
  | WARNING
  | LOCK
  | UNLOCK
  | PERMISSION_RESPONSE
  | EMERGENCY_LOCK
  | PING
  | PONG

fun MessageType_value :: "MessageType \<Rightarrow> string" where
  "MessageType_value REGISTER = ''register''"
| "MessageType_value HEARTBEAT = ''heartbeat''"
| "MessageType_value VIOLATION_REPORT = ''violation_report''"
| "MessageType_value PERMISSION_REQUEST = ''permission_request''"
| "MessageType_value STATUS_UPDATE = ''status_update''"
| "MessageType_value REGISTER_ACK = ''register_ack''"
| "MessageType_value CONFIG_UPDATE = ''config_update''"
| "MessageType_value WARNING = ''warning''"
| "MessageType_value LOCK = ''lock''"
| "MessageType_value UNLOCK = ''unlock''"
| "MessageType_value PERMISSION_RESPONSE = ''permission_response''"
| "MessageType_value EMERGENCY_LOCK = ''emergency_lock''"
| "MessageType_value PING = ''ping''"
| "MessageType_value PONG = ''pong''"

definition all_MessageTypes :: "MessageType list" where
  "all_MessageTypes =
     [REGISTER, HEARTBEAT, VIOLATION_REPORT, PERMISSION_REQUEST, STATUS_UPDATE,
      REGISTER_ACK, CONFIG_UPDATE, WARNING, LOCK, UNLOCK, PERMISSION_RESPONSE,
      EMERGENCY_LOCK, PING, PONG]"

text \<open>
  The enum call \<open>MessageType(v)\<close>: the member whose value equals \<open>v\<close>, and a
  \<open>ValueError\<close> when there is none. Every member's value is a string, so no other kind of
  value is found.
\<close>

definition MessageType_call :: "json \<Rightarrow> error + MessageType" where
  "MessageType_call v =
     (case v of
        JStr s \<Rightarrow>
          (case find (\<lambda>t. MessageType_value t = s) all_MessageTypes of
             None \<Rightarrow> Inl (ValueError ''not a valid MessageType'')
           | Some t \<Rightarrow> Inr t)
      | _ \<Rightarrow> Inl (ValueError ''not a valid MessageType''))"

text \<open>
  \<open>msg_data\<close> and \<open>msg_participant_id\<close> hold whatever the constructor was given
  (\<open>JNull\<close> is \<open>None\<close>).
\<close>

record Message =
  msg_type :: MessageType
  msg_data :: json
  msg_participant_id :: json
  msg_timestamp :: datetime

text \<open>
  The environment of a call: what the modelled code takes from outside the repository
  while it runs. These are the functions of the Python standard library it uses
  (\<open>json.dumps\<close>; \<open>json.loads\<close>, with \<open>None\<close> where it raises;
  \<open>datetime.isoformat\<close>; \<open>datetime.fromisoformat\<close>, with \<open>None\<close> where it
  raises; \<open>str.lower\<close> and \<open>str.strip\<close>), the text form SQLite gives a number
  stored in a text column, the value of the clock, and the transport: \<open>send_text ws m\<close>
  is true when \<open>await websocket.send_text(message.to_json())\<close> completes on handle
  \<open>ws\<close> and false when it raises.
\<close>

type_synonym WebSocket = nat

record env =
  json_dumps :: "json \<Rightarrow> string"
  json_loads :: "string \<Rightarrow> json option"
  isoformat :: "datetime \<Rightarrow> string"
  fromisoformat :: "string \<Rightarrow> datetime option"
  lower :: "string \<Rightarrow> string"
  strip :: "string \<Rightarrow> string"
  number_text :: "json \<Rightarrow> string"
  utcnow :: datetime
  send_text :: "WebSocket \<Rightarrow> Message \<Rightarrow> bool"

text \<open>\<open>Message.__init__\<close>; \<open>now\<close> is the clock it reads when no timestamp is given.\<close>

definition new_Message :: "datetime \<Rightarrow> MessageType \<Rightarrow> json \<Rightarrow> json \<Rightarrow> datetime option \<Rightarrow> Message" where
  "new_Message now t data pid ts =
     \<lparr>msg_type = t,
      msg_data = (if truthy data then data else JDict []),
      msg_participant_id = pid,
      msg_timestamp = (case ts of None \<Rightarrow> now | Some x \<Rightarrow> x)\<rparr>"

definition to_dict :: "env \<Rightarrow> Message \<Rightarrow> json" where
  "to_dict E m =
     JDict [(''type'', JStr (MessageType_value (msg_type m))),
            (''data'', msg_data m),
            (''participant_id'', msg_participant_id m),
            (''timestamp'', JStr (isoformat E (msg_timestamp m)))]"

text \<open>
  \<open>from_dict\<close> evaluates the constructor's arguments in order: the subscript
  \<open>data['type']\<close> (a \<open>TypeError\<close> on a value that is no dict, a \<open>KeyError\<close> on a
  missing key), the enum call, the two \<open>get\<close>s, and \<open>fromisoformat\<close> (a
  \<open>TypeError\<close> on a value that is no string, a \<open>ValueError\<close> on a malformed one).
\<close>

definition from_dict :: "env \<Rightarrow> json \<Rightarrow> error + Message" where
  "from_dict E j =
     (case j of
        JDict kv \<Rightarrow>
          (case map_of kv ''type'' of
             None \<Rightarrow> Inl (KeyError ''type'')
           | Some tv \<Rightarrow>
               (case MessageType_call tv of
                  Inl e \<Rightarrow> Inl e
                | Inr t \<Rightarrow>
                    (let data = (case map_of kv ''data'' of None \<Rightarrow> JDict [] | Some x \<Rightarrow> x);
                         pid = (case map_of kv ''participant_id'' of None \<Rightarrow> JNull | Some x \<Rightarrow> x);
                         tsv = (case map_of kv ''timestamp'' of
                                  None \<Rightarrow> JStr (isoformat E (utcnow E)) | Some x \<Rightarrow> x)
                     in case tsv of
                          JStr s \<Rightarrow>
                            (case fromisoformat E s of
                               None \<Rightarrow> Inl (ValueError ''Invalid isoformat string'')
                             | Some ts \<Rightarrow> Inr (new_Message (utcnow E) t data pid (Some ts)))
                        | _ \<Rightarrow> Inl TypeError)))
      | _ \<Rightarrow> Inl TypeError)"

definition to_json :: "env \<Rightarrow> Message \<Rightarrow> string" where
  "to_json E m = json_dumps E (to_dict E m)"

definition from_json :: "env \<Rightarrow> string \<Rightarrow> error + Message" where
  "from_json E json_str =
     (case json_loads E json_str of
        None \<Rightarrow> Inl JSONDecodeError
      | Some j \<Rightarrow> from_dict E j)"

section \<open>shared/networking/server.py\<close>

text \<open>
  The two dicts of \<open>ProctoringServer\<close>, in insertion order. \<open>writes\<close> is the trace of
  the transport: one entry for every \<open>send_text\<close> the server has attempted, with the
  participant id it was addressed to, the message, and whether it completed.
\<close>

record ProctoringServer =
  connected_clients :: "(string \<times> WebSocket) list"
  client_info :: "(string \<times> (string \<times> json) list) list"
  writes :: "(string \<times> Message \<times> bool) list"

definition disconnect_client :: "env \<Rightarrow> ProctoringServer \<Rightarrow> string \<Rightarrow> ProctoringServer" where
  "disconnect_client E s pid =
     (let s1 = (if pid \<in> fst ` set (connected_clients s)
                then s\<lparr>connected_clients := AList.delete pid (connected_clients s)\<rparr>
                else s)
      in case map_of (client_info s1) pid of
           None \<Rightarrow> s1
         | Some info \<Rightarrow>
             s1\<lparr>client_info :=
                  AList.update pid
                    (AList.update ''connected'' (JBool False)
                       (AList.update ''last_seen'' (JStr (isoformat E (utcnow E))) info))
                    (client_info s1)\<rparr>)"

definition send_message ::
  "env \<Rightarrow> ProctoringServer \<Rightarrow> string \<Rightarrow> Message \<Rightarrow> bool \<times> ProctoringServer" where
  "send_message E s pid message =
     (case map_of (connected_clients s) pid of
        None \<Rightarrow> (False, s)
      | Some websocket \<Rightarrow>
          if send_text E websocket message
          then (True, s\<lparr>writes := writes s @ [(pid, message, True)]\<rparr>)
          else (False, disconnect_client E (s\<lparr>writes := writes s @ [(pid, message, False)]\<rparr>) pid))"

text \<open>The loop of \<open>broadcast_message\<close> over the snapshot \<open>list(self.connected_clients.keys())\<close>.\<close>

fun broadcast_loop ::
  "env \<Rightarrow> Message \<Rightarrow> string list \<Rightarrow> string list \<Rightarrow> ProctoringServer \<Rightarrow> ProctoringServer" where
  "broadcast_loop E message exclude [] s = s"
| "broadcast_loop E message exclude (pid # pids) s =
     (if pid \<notin> set exclude
      then broadcast_loop E message exclude pids (snd (send_message E s pid message))
      else broadcast_loop E message exclude pids s)"

definition broadcast_message ::
  "env \<Rightarrow> ProctoringServer \<Rightarrow> Message \<Rightarrow> string list \<Rightarrow> ProctoringServer" where
  "broadcast_message E s message exclude =
     broadcast_loop E message exclude (map fst (connected_clients s)) s"

section \<open>admin_app/app.py\<close>

text \<open>
  The state of \<open>AdminApp\<close> that the message handlers read and write. \<open>config\<close> is the
  dict \<open>config['ai_proctoring']['escalation']\<close>, with \<open>None\<close> for a key that is
  absent. A handler returns the exception that leaves it, or \<open>()\<close> when it returns
  normally, together with the state it leaves behind.
\<close>

record escalation =
  warnings_before_flag :: "int option"
  warnings_before_lock :: "int option"

record AdminApp =
  db_manager :: database
  server :: ProctoringServer
  current_session_id :: "int option"
  ai_proctor_mode :: bool
  config :: escalation

text \<open>\<open>not self.current_session_id\<close>: true on \<open>None\<close> and on \<open>0\<close>.\<close>

definition no_session :: "int option \<Rightarrow> bool" where
  "no_session sid = (case sid of None \<Rightarrow> True | Some n \<Rightarrow> n = 0)"

definition rejected :: "env \<Rightarrow> string \<Rightarrow> string \<Rightarrow> Message" where
  "rejected E pid msg =
     new_Message (utcnow E) REGISTER_ACK
       (JDict [(''status'', JStr ''rejected''), (''message'', JStr msg)]) (JStr pid) None"

text \<open>
  \<open>_handle_register_async\<close>. The name is read and stripped before the first check, which
  raises \<open>AttributeError\<close> when the payload is no dict or the name no string. The roster
  row is the object \<open>get_participant\<close> returned; adding it to a session after the
  assignments writes the four columns of the row with its primary key when the session
  commits, and a value the driver refuses ends the handler there, before the
  acknowledgment. The refresh of the dashboard that ends the handler belongs to the user
  interface and is left out.
\<close>

definition handle_register_async ::
  "env \<Rightarrow> AdminApp \<Rightarrow> string \<Rightarrow> Message \<Rightarrow> (error + unit) \<times> AdminApp" where
  "handle_register_async E app pid message =
     (let data = msg_data message in
      case dict_get data ''name'' (JStr []) of
        Inl e \<Rightarrow> (Inl e, app)
      | Inr (JStr raw) \<Rightarrow>
          (let nm = strip E raw in
           case get_participant (db_manager app) pid of
             None \<Rightarrow>
               (Inr (), app\<lparr>server := snd (send_message E (server app) pid
                      (rejected E pid (''ID Peserta '' @ pid @
                         '' tidak terdaftar. Silakan hubungi pengawas.'')))\<rparr>)
           | Some participant \<Rightarrow>
               if lower E (name participant) \<noteq> lower E nm
               then (Inr (), app\<lparr>server := snd (send_message E (server app) pid
                      (rejected E pid (''Nama tidak sesuai. Nama yang terdaftar: '' @
                         name participant)))\<rparr>)
               else if no_session (current_session_id app) \<or>
                       Some (exam_session_id participant) \<noteq> current_session_id app
               then (Inr (), app\<lparr>server := snd (send_message E (server app) pid
                      (rejected E pid ''Sesi ujian tidak aktif atau tidak sesuai.''))\<rparr>)
               else
                 (case (dict_get data ''computer_ip'' (JStr []),
                        dict_get data ''computer_name'' (JStr [])) of
                    (Inl e, _) \<Rightarrow> (Inl e, app)
                  | (Inr _, Inl e) \<Rightarrow> (Inl e, app)
                  | (Inr ip, Inr cname) \<Rightarrow>
                      (case (bind_text ip, bind_text cname) of
                         (Inl e, _) \<Rightarrow> (Inl e, app)
                       | (Inr _, Inl e) \<Rightarrow> (Inl e, app)
                       | (Inr stored_ip, Inr stored_name) \<Rightarrow>
                           (let d = db_manager app;
                                d' = d\<lparr>participants :=
                                        update_first (\<lambda>p. p_id p = p_id participant)
                                          (\<lambda>p. p\<lparr>computer_ip := stored_ip,
                                                 computer_name := stored_name,
                                                 is_active := True,
                                                 last_heartbeat := utcnow E\<rparr>)
                                          (participants d)\<rparr>;
                                ack_message = new_Message (utcnow E) REGISTER_ACK
                                  (JDict [(''status'', JStr ''registered''),
                                          (''participant_id'', JStr pid),
                                          (''exam_session_id'',
                                             (case current_session_id app of
                                                None \<Rightarrow> JNull | Some n \<Rightarrow> JInt n))])
                                  (JStr pid) None
                            in (Inr (),
                                app\<lparr>db_manager := d',
                                    server := snd (send_message E (server app) pid ack_message)\<rparr>)))))
      | Inr _ \<Rightarrow> (Inl AttributeError, app))"

text \<open>
  \<open>_update_integrity_score\<close>: the score is computed in floating point from the two
  integer counters; it is modelled in the reals.
\<close>

definition app_update_integrity_score :: "database \<Rightarrow> string \<Rightarrow> database" where
  "app_update_integrity_score d pid =
     (case find (\<lambda>p. participant_id p = pid) (participants d) of
        None \<Rightarrow> d
      | Some _ \<Rightarrow>
          d\<lparr>participants := update_first (\<lambda>p. participant_id p = pid)
               (\<lambda>p. let base_score = 100;
                         violation_penalty = real_of_int (violation_count p) * 5;
                         warning_penalty = real_of_int (warning_count p) * 2;
                         score = max 0 (base_score - violation_penalty - warning_penalty)
                     in p\<lparr>integrity_score := score\<rparr>)
               (participants d)\<rparr>)"

text \<open>
  \<open>loop.run_until_complete(coroutine)\<close> on a fresh event loop. \<open>in_loop\<close> tells
  whether an event loop is already running in the calling thread: asyncio then raises
  \<open>RuntimeError\<close> and the coroutine never runs; otherwise the coroutine, here a
  \<open>send_message\<close> of the server, runs to its end.
\<close>

definition run_until_complete ::
  "bool \<Rightarrow> bool \<times> ProctoringServer \<Rightarrow> error + ProctoringServer" where
  "run_until_complete in_loop sent = (if in_loop then Inl RuntimeError else Inr (snd sent))"

text \<open>The value of \<open>violation.description\<close> inside the f-string of the warning.\<close>

definition format_description :: "env \<Rightarrow> cell \<Rightarrow> string" where
  "format_description E c =
     (case c of Null \<Rightarrow> ''None'' | Text s \<Rightarrow> s | NumberText v \<Rightarrow> number_text E v)"

text \<open>
  \<open>_handle_violation_auto\<close>. \<open>participant\<close> is the object \<open>get_participant\<close>
  returned before \<open>increment_warning_count\<close> ran in a session of its own: the sessions are
  made with \<open>expire_on_commit=False\<close>, so the object keeps the column values it was loaded
  with. The increment is committed before the first \<open>run_until_complete\<close>.
\<close>

definition handle_violation_auto ::
  "env \<Rightarrow> bool \<Rightarrow> AdminApp \<Rightarrow> Violation \<Rightarrow> string \<Rightarrow> (error + unit) \<times> AdminApp" where
  "handle_violation_auto E in_loop app violation pid =
     (case get_participant (db_manager app) pid of
        None \<Rightarrow> (Inr (), app)
      | Some participant \<Rightarrow>
          (let d1 = increment_warning_count (db_manager app) pid;
               warning_message = new_Message (utcnow E) WARNING
                 (JDict [(''message'',
                            JStr (''Peringatan: '' @ format_description E (description violation))),
                         (''warning_count'', JInt (warning_count participant))])
                 (JStr pid) None
           in case run_until_complete in_loop
                     (send_message E (server app) pid warning_message) of
                Inl e \<Rightarrow> (Inl e, app\<lparr>db_manager := d1\<rparr>)
              | Inr s1 \<Rightarrow>
                  (let before_flag =
                         (case warnings_before_flag (config app) of None \<Rightarrow> 3 | Some n \<Rightarrow> n);
                       before_lock =
                         (case warnings_before_lock (config app) of None \<Rightarrow> 5 | Some n \<Rightarrow> n)
                   in if warning_count participant \<ge> before_lock
                      then (let d2 = lock_participant d1 pid True;
                                lock_message = new_Message (utcnow E) LOCK
                                  (JDict [(''reason'', JStr ''auto_escalation'')]) (JStr pid) None
                            in case run_until_complete in_loop
                                      (send_message E s1 pid lock_message) of
                                 Inl e \<Rightarrow> (Inl e, app\<lparr>db_manager := d2, server := s1\<rparr>)
                               | Inr s2 \<Rightarrow> (Inr (), app\<lparr>db_manager := d2, server := s2\<rparr>))
                      else if warning_count participant \<ge> before_flag
                      then (let flag_message = new_Message (utcnow E) WARNING
                                  (JDict [(''message'',
                                             JStr ''FLAG: Anda telah mencapai batas peringatan!''),
                                          (''flag'', JBool True)]) (JStr pid) None
                            in case run_until_complete in_loop
                                      (send_message E s1 pid flag_message) of
                                 Inl e \<Rightarrow> (Inl e, app\<lparr>db_manager := d1, server := s1\<rparr>)
                               | Inr s2 \<Rightarrow> (Inr (), app\<lparr>db_manager := d1, server := s2\<rparr>))
                      else (Inr (), app\<lparr>db_manager := d1, server := s1\<rparr>))))"

fun ViolationType_value :: "ViolationType \<Rightarrow> string" where
  "ViolationType_value APPLICATION_BLOCKED = ''application_blocked''"
| "ViolationType_value PROCESS_TERMINATION_ATTEMPT = ''process_termination_attempt''"
| "ViolationType_value FACE_ABSENCE = ''face_absence''"
| "ViolationType_value MULTIPLE_FACES = ''multiple_faces''"
| "ViolationType_value SUSPICIOUS_MOVEMENT = ''suspicious_movement''"
| "ViolationType_value VOICE_ACTIVITY = ''voice_activity''"
| "ViolationType_value MULTIPLE_SPEAKERS = ''multiple_speakers''"
| "ViolationType_value SCREEN_SWITCH = ''screen_switch''"
| "ViolationType_value SHORTCUT_BLOCKED = ''shortcut_blocked''"
| "ViolationType_value UNAUTHORIZED_WEBSITE = ''unauthorized_website''"

definition ViolationType_call :: "json \<Rightarrow> error + ViolationType" where
  "ViolationType_call v =
     (case v of
        JStr s \<Rightarrow>
          (case find (\<lambda>t. ViolationType_value t = s)
                  [APPLICATION_BLOCKED, PROCESS_TERMINATION_ATTEMPT, FACE_ABSENCE, MULTIPLE_FACES,
                   SUSPICIOUS_MOVEMENT, VOICE_ACTIVITY, MULTIPLE_SPEAKERS, SCREEN_SWITCH,
                   SHORTCUT_BLOCKED, UNAUTHORIZED_WEBSITE] of
             None \<Rightarrow> Inl (ValueError ''not a valid ViolationType'')
           | Some t \<Rightarrow> Inr t)
      | _ \<Rightarrow> Inl (ValueError ''not a valid ViolationType''))"

fun ViolationSeverity_value :: "ViolationSeverity \<Rightarrow> string" where
  "ViolationSeverity_value LOW = ''low''"
| "ViolationSeverity_value MEDIUM = ''medium''"
| "ViolationSeverity_value HIGH = ''high''"
| "ViolationSeverity_value CRITICAL = ''critical''"

definition ViolationSeverity_call :: "json \<Rightarrow> error + ViolationSeverity" where
  "ViolationSeverity_call v =
     (case v of
        JStr s \<Rightarrow>
          (case find (\<lambda>t. ViolationSeverity_value t = s) [LOW, MEDIUM, HIGH, CRITICAL] of
             None \<Rightarrow> Inl (ValueError ''not a valid ViolationSeverity'')
           | Some t \<Rightarrow> Inr t)
      | _ \<Rightarrow> Inl (ValueError ''not a valid ViolationSeverity''))"

text \<open>
  \<open>_handle_violation_report\<close>, a plain function. The violation and the new integrity
  score are committed before \<open>_handle_violation_auto\<close> is called.
\<close>

definition handle_violation_report ::
  "env \<Rightarrow> bool \<Rightarrow> AdminApp \<Rightarrow> string \<Rightarrow> Message \<Rightarrow> (error + unit) \<times> AdminApp" where
  "handle_violation_report E in_loop app pid message =
     (let data = msg_data message in
      case dict_get data ''violation_type'' (JStr ''application_blocked'') of
        Inl e \<Rightarrow> (Inl e, app)
      | Inr tv \<Rightarrow>
      (case ViolationType_call tv of
        Inl e \<Rightarrow> (Inl e, app)
      | Inr vtype \<Rightarrow>
      (case dict_get data ''severity'' (JStr ''medium'') of
        Inl e \<Rightarrow> (Inl e, app)
      | Inr sv \<Rightarrow>
      (case ViolationSeverity_call sv of
        Inl e \<Rightarrow> (Inl e, app)
      | Inr sev \<Rightarrow>
      (case current_session_id app of
        None \<Rightarrow> (Inr (), app)
      | Some sid \<Rightarrow>
          if sid = 0 then (Inr (), app)
          else
            (case dict_get data ''description'' (JStr []) of
               Inl e \<Rightarrow> (Inl e, app)
             | Inr descr \<Rightarrow>
                 (case create_violation (utcnow E) (db_manager app) pid sid vtype sev descr of
                    (Inl e, _) \<Rightarrow> (Inl e, app)
                  | (Inr violation, d1) \<Rightarrow>
                      (let d2 = (case get_participant d1 pid of
                                   None \<Rightarrow> d1
                                 | Some _ \<Rightarrow> app_update_integrity_score d1 pid);
                           app2 = app\<lparr>db_manager := d2\<rparr>
                       in if ai_proctor_mode app2
                          then handle_violation_auto E in_loop app2 violation pid
                          else (Inr (), app2)))))))))"

text \<open>
  \<open>_handle_violation_report_async\<close>, the handler the server calls. It is a coroutine, so
  its body runs inside the running event loop of the server; it awaits the value the plain
  function returns, which is \<open>None\<close>, and that raises \<open>TypeError\<close>.
\<close>

definition handle_violation_report_async ::
  "env \<Rightarrow> AdminApp \<Rightarrow> string \<Rightarrow> Message \<Rightarrow> (error + unit) \<times> AdminApp" where
  "handle_violation_report_async E app pid message =
     (case handle_violation_report E True app pid message of
        (Inl e, app') \<Rightarrow> (Inl e, app')
      | (Inr _, app') \<Rightarrow> (Inl TypeError, app'))"

text \<open>
  The read loop of \<open>websocket_endpoint\<close> in \<open>server.py\<close>, for one participant.
  \<open>websocket_accept\<close> is its entry, which registers the handle. \<open>websocket_receive\<close> is
  one turn of the loop on a decoded VIOLATION_REPORT: an exception of the handler ends the
  loop in \<open>_disconnect_client\<close>.
\<close>

definition websocket_accept :: "AdminApp \<Rightarrow> string \<Rightarrow> WebSocket \<Rightarrow> AdminApp" where
  "websocket_accept app pid ws =
     app\<lparr>server := (server app)\<lparr>connected_clients :=
                       AList.update pid ws (connected_clients (server app))\<rparr>\<rparr>"

definition websocket_receive :: "env \<Rightarrow> AdminApp \<Rightarrow> string \<Rightarrow> Message \<Rightarrow> AdminApp" where
  "websocket_receive E app pid message =
     (case handle_violation_report_async E app pid message of
        (Inl e, app') \<Rightarrow> app'\<lparr>server := disconnect_client E (server app') pid\<rparr>
      | (Inr _, app') \<Rightarrow> app')"

section \<open>shared/networking/client.py\<close>

text \<open>
  \<open>ProctoringClient\<close> runs on one asyncio event loop, so its code is interleaved only
  at an \<open>await\<close>. The coroutine \<open>start\<close> is modelled by the place where it is
  suspended: in \<open>websockets.connect\<close>, in the \<open>send\<close> of the REGISTER message, in
  \<open>recv\<close>, or in \<open>asyncio.sleep\<close>. \<open>Spinning\<close> is the loop of \<open>listen\<close> turning
  without an \<open>await\<close> (flag set, \<open>is_connected\<close> set, no websocket), which does not
  give the event loop back. \<open>pending_disconnect\<close> counts the \<open>disconnect\<close> coroutines
  that \<open>stop\<close> has scheduled and that have not begun, \<open>closing\<close> those suspended in
  \<open>websocket.close()\<close>. One call of \<open>start\<close> runs at a time.
\<close>

datatype location = NotStarted | InConnect | InSend | InRecv | InSleep | Spinning | Returned

record ProctoringClient =
  server_url :: string
  client_participant_id :: string
  websocket :: "WebSocket option"
  is_connected :: bool
  reconnect_interval :: int
  running :: bool
  start_args :: "json \<times> json \<times> json"
  location :: location
  pending_disconnect :: nat
  closing :: nat

definition new_ProctoringClient :: "string \<Rightarrow> string \<Rightarrow> ProctoringClient" where
  "new_ProctoringClient url pid =
     \<lparr>server_url = url,
      client_participant_id = pid,
      websocket = None,
      is_connected = False,
      reconnect_interval = 5,
      running = False,
      start_args = (JNull, JNull, JNull),
      location = NotStarted,
      pending_disconnect = 0,
      closing = 0\<rparr>"

text \<open>
  What happens next. \<open>ConnectReturns ws now\<close>: \<open>websockets.connect\<close> gave handle
  \<open>ws\<close> at time \<open>now\<close>. \<open>RecvReturns ok\<close>: \<open>recv\<close> gave a text, and \<open>ok\<close>
  tells whether decoding and handling it completes without an exception.
  \<open>CallStop in_loop\<close>: \<open>stop\<close> is called, from the thread of the running event loop
  or from another thread, in which no event loop runs. \<open>RunDisconnect\<close>: a scheduled
  \<open>disconnect\<close> begins. \<open>CloseReturns\<close>: its \<open>await self.websocket.close()\<close>
  returns.
\<close>

datatype event =
    CallStart json json json
  | ConnectReturns WebSocket datetime
  | ConnectRaises
  | SendReturns
  | SendRaises
  | RecvReturns bool
  | RecvRaises
  | SleepReturns
  | CallStop bool
  | RunDisconnect
  | CloseReturns

text \<open>
  What the client does to the outside: the connection attempt, the send, the sleep, the
  close, and the exception a call of \<open>stop\<close> ends with.
\<close>

datatype effect =
    Connect string
  | Send Message
  | Sleep int
  | Close WebSocket
  | Raise error

text \<open>The test \<open>while self.running\<close> of \<open>start\<close>, followed by the call of \<open>connect\<close>.\<close>

definition loop_head :: "ProctoringClient \<Rightarrow> ProctoringClient \<times> effect list" where
  "loop_head c =
     (if running c
      then (c\<lparr>location := InConnect\<rparr>, [Connect (server_url c @ ''/ws/'' @ client_participant_id c)])
      else (c\<lparr>location := Returned\<rparr>, []))"

text \<open>The test \<open>if self.running\<close> at the end of the loop body, followed by the sleep.\<close>

definition reconnect :: "ProctoringClient \<Rightarrow> ProctoringClient \<times> effect list" where
  "reconnect c =
     (if running c
      then (c\<lparr>location := InSleep\<rparr>, [Sleep (reconnect_interval c)])
      else loop_head c)"

text \<open>The test \<open>while self.running and self.is_connected\<close> of \<open>listen\<close>.\<close>

definition listen :: "ProctoringClient \<Rightarrow> ProctoringClient \<times> effect list" where
  "listen c =
     (if running c \<and> is_connected c
      then (case websocket c of
              Some _ \<Rightarrow> (c\<lparr>location := InRecv\<rparr>, [])
            | None \<Rightarrow> (c\<lparr>location := Spinning\<rparr>, []))
      else reconnect c)"

definition register_message :: "datetime \<Rightarrow> ProctoringClient \<Rightarrow> Message" where
  "register_message now c =
     (case start_args c of
        (nm, ip, cname) \<Rightarrow>
          new_Message now REGISTER
            (JDict [(''name'', nm), (''computer_ip'', ip), (''computer_name'', cname)])
            (JStr (client_participant_id c)) None)"

text \<open>
  While the loop of \<open>listen\<close> spins, nothing else runs on the event loop; only a
  \<open>stop\<close> from another thread is seen, by the test of the spinning loop.
\<close>

fun step :: "ProctoringClient \<Rightarrow> event \<Rightarrow> ProctoringClient \<times> effect list" where
  "step c (CallStart nm ip cname) =
     (if location c = NotStarted \<or> location c = Returned
      then loop_head (c\<lparr>running := True, start_args := (nm, ip, cname)\<rparr>)
      else (c, []))"
| "step c (ConnectReturns ws now) =
     (if location c = InConnect
      then (let c1 = c\<lparr>websocket := Some ws, is_connected := True\<rparr>
            in (c1\<lparr>location := InSend\<rparr>, [Send (register_message now c1)]))
      else (c, []))"
| "step c ConnectRaises =
     (if location c = InConnect then reconnect (c\<lparr>is_connected := False\<rparr>) else (c, []))"
| "step c SendReturns =
     (if location c = InSend then listen c else (c, []))"
| "step c SendRaises =
     (if location c = InSend then listen (c\<lparr>is_connected := False\<rparr>) else (c, []))"
| "step c (RecvReturns ok) =
     (if location c = InRecv
      then (if ok then listen c else reconnect (c\<lparr>is_connected := False\<rparr>))
      else (c, []))"
| "step c RecvRaises =
     (if location c = InRecv then reconnect (c\<lparr>is_connected := False\<rparr>) else (c, []))"
| "step c SleepReturns =
     (if location c = InSleep then loop_head c else (c, []))"
| "step c (CallStop in_loop) =
     (if in_loop
      then (if location c = Spinning then (c, [])
            else (c\<lparr>running := False, pending_disconnect := Suc (pending_disconnect c)\<rparr>, []))
      else (if location c = Spinning
            then (fst (listen (c\<lparr>running := False\<rparr>)), [Raise RuntimeError])
            else (c\<lparr>running := False\<rparr>, [Raise RuntimeError])))"
| "step c RunDisconnect =
     (if location c = Spinning \<or> pending_disconnect c = 0 then (c, [])
      else (let c1 = c\<lparr>pending_disconnect := pending_disconnect c - 1, is_connected := False\<rparr>
            in case websocket c1 of
                 None \<Rightarrow> (c1, [])
               | Some ws \<Rightarrow> (c1\<lparr>closing := Suc (closing c1)\<rparr>, [Close ws])))"
| "step c CloseReturns =
     (if location c = Spinning \<or> closing c = 0 then (c, [])
      else (c\<lparr>closing := closing c - 1, websocket := None\<rparr>, []))"

fun run :: "ProctoringClient \<Rightarrow> event list \<Rightarrow> ProctoringClient \<times> effect list" where
  "run c [] = (c, [])"
| "run c (e # es) =
     (let (c1, fx1) = step c e; (c2, fx2) = run c1 es in (c2, fx1 @ fx2))"

fun is_CallStart :: "event \<Rightarrow> bool" where
  "is_CallStart (CallStart _ _ _) = True"
| "is_CallStart _ = False"

fun is_Connect :: "effect \<Rightarrow> bool" where
  "is_Connect (Connect _) = True"
| "is_Connect _ = False"

text \<open>
  What holds of the client in every state it reaches: the settings of the constructor are
  never reassigned.
\<close>

definition client_inv :: "string \<Rightarrow> string \<Rightarrow> ProctoringClient \<Rightarrow> bool" where
  "client_inv url pid c =
     (server_url c = url \<and> client_participant_id c = pid \<and> reconnect_interval c = 5)"

section \<open>Example data\<close>

text \<open>\<open>str.lower\<close> and \<open>str.strip\<close> as they act on ASCII text.\<close>

definition ascii_lower :: "string \<Rightarrow> string" where
  "ascii_lower s =
     map (\<lambda>c. case map_of (zip ''ABCDEFGHIJKLMNOPQRSTUVWXYZ'' ''abcdefghijklmnopqrstuvwxyz'') c of
                 None \<Rightarrow> c
               | Some l \<Rightarrow> l) s"

definition ascii_space :: "char \<Rightarrow> bool" where
  "ascii_space c = (let n = (of_char c :: nat) in (9 \<le> n \<and> n \<le> 13) \<or> (28 \<le> n \<and> n \<le> 32))"

definition ascii_strip :: "string \<Rightarrow> string" where
  "ascii_strip s = rev (dropWhile ascii_space (rev (dropWhile ascii_space s)))"

text \<open>A roster of one participant, \<open>P1\<close>, enrolled in exam session 7.\<close>

definition demo_participant :: Participant where
  "demo_participant =
     \<lparr>p_id = 1, participant_id = ''P1'', name = ''Alice'', exam_session_id = 7,
      computer_ip = Null, computer_name = Null, joined_at = 0, last_heartbeat = 0,
      is_active = True, integrity_score = 100, warning_count = 0, violation_count = 0,
      is_locked = False\<rparr>"

definition demo_db :: database where
  "demo_db = \<lparr>participants = [demo_participant], violations = [], permission_requests = []\<rparr>"

text \<open>
  A request of \<open>P1\<close> for ten minutes whose status column holds the member PENDING,
  as the column default stores it.
\<close>

definition demo_request :: PermissionRequest where
  "demo_request =
     \<lparr>r_id = 1, r_participant_id = 1, request_type = Text ''leave_seat'', status = ''PENDING'',
      requested_at = 0, approved_at = None, expires_at = None, duration_minutes = 10,
      reason = Null\<rparr>"

definition demo_db_request :: database where
  "demo_db_request = demo_db\<lparr>permission_requests := [demo_request]\<rparr>"

text \<open>
  An environment for the examples: the wire text of one PING message, the ISO form of time
  0, a clock standing at 0, and a transport on which only handle 0 is broken.
\<close>

definition ping_doc :: json where
  "ping_doc =
     JDict [(''type'', JStr ''ping''), (''data'', JDict []), (''participant_id'', JNull),
            (''timestamp'', JStr ''1970-01-01T00:00:00'')]"

definition demo_env :: env where
  "demo_env =
     \<lparr>json_dumps = (\<lambda>j. if j = ping_doc then ''<ping_doc>'' else ''<other>''),
      json_loads = (\<lambda>s. if s = ''<ping_doc>'' then Some ping_doc else None),
      isoformat = (\<lambda>t. if t = 0 then ''1970-01-01T00:00:00'' else ''<later>''),
      fromisoformat = (\<lambda>s. if s = ''1970-01-01T00:00:00'' then Some 0 else None),
      lower = ascii_lower,
      strip = ascii_strip,
      number_text = (\<lambda>j. ''<number>''),
      utcnow = 0,
      send_text = (\<lambda>ws m. ws \<noteq> 0)\<rparr>"

text \<open>A server with three participants connected; the handle of \<open>P1\<close> is the broken one.\<close>

definition demo_server :: ProctoringServer where
  "demo_server =
     \<lparr>connected_clients = [(''P1'', 0), (''P2'', 1), (''P3'', 2)],
      client_info = [],
      writes = []\<rparr>"

definition demo_message :: Message where
  "demo_message = new_Message 0 EMERGENCY_LOCK (JDict [(''reason'', JStr ''emergency'')]) JNull None"

text \<open>
  The admin application during exam session 7, with \<open>P1\<close> connected on a working handle,
  automatic escalation on and the thresholds left at their defaults.
\<close>

definition demo_app :: AdminApp where
  "demo_app =
     \<lparr>db_manager = demo_db,
      server = \<lparr>connected_clients = [(''P1'', 1)], client_info = [], writes = []\<rparr>,
      current_session_id = Some 7,
      ai_proctor_mode = True,
      config = \<lparr>warnings_before_flag = None, warnings_before_lock = None\<rparr>\<rparr>"

definition demo_register :: Message where
  "demo_register =
     new_Message 0 REGISTER
       (JDict [(''name'', JStr ''alice''), (''computer_ip'', JStr ''10.0.0.5''),
               (''computer_name'', JStr ''lab-pc'')])
       (JStr ''P1'') None"

definition demo_report :: Message where
  "demo_report =
     new_Message 0 VIOLATION_REPORT
       (JDict [(''violation_type'', JStr ''application_blocked''), (''severity'', JStr ''medium''),
               (''description'', JStr ''notepad.exe'')])
       (JStr ''P1'') None"

section \<open>Unknown participants\<close>

text \<open>
  Claim C10. Called with a participant id that is not in the roster,
  \<open>update_participant_heartbeat\<close>, \<open>increment_warning_count\<close>, \<open>lock_participant\<close> and
  \<open>update_integrity_score\<close> return without an error and leave the database as it was,
  while \<open>create_violation\<close> and \<open>create_permission_request\<close> raise
  \<open>ValueError("Participant <id> not found")\<close> and leave the database as it was.
\<close>

theorem unknown_participant_operations:
  assumes "get_participant d pid = None"
  shows "update_participant_heartbeat now d pid = d
       \<and> increment_warning_count d pid = d
       \<and> lock_participant d pid locked = d
       \<and> update_integrity_score d pid score = d
       \<and> create_violation now d pid sid vtype sev descr
            = (Inl (ValueError (''Participant '' @ pid @ '' not found'')), d)
       \<and> create_permission_request now d pid rtype duration rsn
            = (Inl (ValueError (''Participant '' @ pid @ '' not found'')), d)"
  using assms
  by (simp add: get_participant_def update_participant_heartbeat_def increment_warning_count_def
      lock_participant_def update_integrity_score_def create_violation_def
      create_permission_request_def not_found_def)

theorem unknown_participant_operations_witness:
  "get_participant demo_db ''P2'' = None
   \<and> increment_warning_count demo_db ''P2'' = demo_db
   \<and> fst (create_violation 5 demo_db ''P2'' 7 FACE_ABSENCE HIGH (JStr ''x''))
        = Inl (ValueError ''Participant P2 not found'')"
proof -
  have h: "get_participant demo_db ''P2'' = None"
    by (simp add: get_participant_def demo_db_def demo_participant_def)
  show ?thesis
    using h unknown_participant_operations
      [OF h, of 5 True 0 7 FACE_ABSENCE HIGH "JStr ''x''" JNull 10 JNull]
    by simp
qed

lemma find_update_first_same:
  "find P xs = Some y \<Longrightarrow> P (f y) \<Longrightarrow> find P (update_first P f xs) = Some (f y)"
  by (induction xs) (auto split: if_splits)

section \<open>Integrity score\<close>

text \<open>
  Claim C4. For a participant with violation count \<open>v\<close> and warning count \<open>w\<close>,
  the recomputed integrity score is \<open>max(0, 100 - 5v - 2w)\<close>; it is never below 0, and
  it does not grow when \<open>v\<close> or \<open>w\<close> grows.
\<close>

theorem integrity_score_recomputed:
  assumes "get_participant d pid = Some p"
  shows "\<exists>p'. get_participant (app_update_integrity_score d pid) pid = Some p'
           \<and> integrity_score p'
               = max 0 (100 - 5 * real_of_int (violation_count p) - 2 * real_of_int (warning_count p))
           \<and> 0 \<le> integrity_score p'
           \<and> (\<forall>d2 q. get_participant d2 pid = Some q
                  \<and> violation_count p \<le> violation_count q \<and> warning_count p \<le> warning_count q
                \<longrightarrow> (\<exists>q'. get_participant (app_update_integrity_score d2 pid) pid = Some q'
                       \<and> integrity_score q' \<le> integrity_score p'))"
proof -
  let ?f = "\<lambda>p::Participant. p\<lparr>integrity_score :=
      max 0 (100 - real_of_int (violation_count p) * 5 - real_of_int (warning_count p) * 2)\<rparr>"
  have upd: "get_participant (app_update_integrity_score e pid) pid = Some (?f x)"
    if "get_participant e pid = Some x" for e x
  proof -
    from that have f: "find (\<lambda>p. participant_id p = pid) (participants e) = Some x"
      by (simp add: get_participant_def)
    then have "participant_id x = pid"
      by (auto simp: find_Some_iff)
    then have "find (\<lambda>p. participant_id p = pid)
                 (update_first (\<lambda>p. participant_id p = pid) ?f (participants e)) = Some (?f x)"
      using f by (intro find_update_first_same) auto
    with f show ?thesis
      by (simp add: get_participant_def app_update_integrity_score_def Let_def)
  qed
  have mono: "integrity_score (?f q) \<le> integrity_score (?f p)"
    if "violation_count p \<le> violation_count q" "warning_count p \<le> warning_count q" for q
    using that by (simp add: max_def)
  show ?thesis
    using upd [OF assms] upd mono by (auto simp: algebra_simps)
qed

theorem integrity_score_recomputed_witness:
  "get_participant demo_db ''P1'' = Some demo_participant
   \<and> (\<exists>p'. get_participant (app_update_integrity_score demo_db ''P1'') ''P1'' = Some p'
           \<and> integrity_score p' = 100)"
proof -
  have h: "get_participant demo_db ''P1'' = Some demo_participant"
    by (simp add: get_participant_def demo_db_def demo_participant_def)
  show ?thesis
    using h integrity_score_recomputed [OF h]
    by (auto simp: demo_participant_def)
qed

section \<open>Permission requests\<close>

lemma get_active_permission_returns_no_request:
  "get_active_permission now d pid \<noteq> Inr (Some r)"
proof
  assume a: "get_active_permission now d pid = Inr (Some r)"
  then obtain p where p: "find (\<lambda>p. participant_id p = pid) (participants d) = Some p"
    by (auto simp: get_active_permission_def split: option.splits)
  let ?Q = "\<lambda>r. r_participant_id r = p_id p \<and> status r = ''approved'' \<and>
                 (case expires_at r of None \<Rightarrow> False | Some e \<Rightarrow> e > now)"
  from a p obtain q where q: "find ?Q (permission_requests d) = Some q"
    by (auto simp: get_active_permission_def split: option.splits)
  then have "status q = ''approved''"
    by (auto simp: find_Some_iff)
  then have "PermissionStatus_load (status q) = Inl LookupError"
    by (simp add: PermissionStatus_load_def)
  with a p q show False
    by (simp add: get_active_permission_def)
qed

text \<open>
  Claim C6, at a request of \<open>P1\<close> with status PENDING and a duration of ten minutes,
  approved at time 1000. The approval returns \<open>True\<close> and sets \<open>approved_at\<close> and
  \<open>expires_at\<close> as the claim says, but it stores the string \<open>'approved'\<close> in the status
  column, which is not the name of a member. So \<open>get_active_permission\<close> raises
  \<open>LookupError\<close> before the expiry, where the claim has it return the request, and a
  second approval raises \<open>LookupError\<close>, where the claim has it fail with \<open>False\<close>.
  \<open>create_permission_request\<close> raises the same error for a participant of the roster.
\<close>

theorem approved_request_cannot_be_loaded:
  "approve_permission_request 1000 1000 demo_db_request 1
     = (Inr True,
        demo_db_request\<lparr>permission_requests :=
          [demo_request\<lparr>status := ''approved'', approved_at := Some 1000,
                         expires_at := Some 600001000\<rparr>]\<rparr>)
   \<and> get_active_permission 2000
         (snd (approve_permission_request 1000 1000 demo_db_request 1)) ''P1''
       = Inl LookupError
   \<and> get_active_permission 600001000
         (snd (approve_permission_request 1000 1000 demo_db_request 1)) ''P1''
       = Inr None
   \<and> approve_permission_request 3000 3000
         (snd (approve_permission_request 1000 1000 demo_db_request 1)) 1
       = (Inl LookupError, snd (approve_permission_request 1000 1000 demo_db_request 1))
   \<and> create_permission_request 0 demo_db ''P1'' (JStr ''leave_seat'') 10 JNull
       = (Inl LookupError, demo_db)"
  by (simp add: approve_permission_request_def get_active_permission_def
      create_permission_request_def PermissionStatus_load_def demo_db_request_def demo_db_def
      demo_request_def demo_participant_def timedelta_minutes_def bind_text_def int64_def
      next_id_def)

section \<open>Protocol codec\<close>

lemma MessageType_call_value: "MessageType_call (JStr (MessageType_value t)) = Inr t"
  by (cases t) (simp_all add: MessageType_call_def all_MessageTypes_def)

lemma MessageType_call_Inr: "MessageType_call v = Inr t \<Longrightarrow> v = JStr (MessageType_value t)"
  by (auto simp: MessageType_call_def find_Some_iff split: json.splits option.splits)

text \<open>
  Claim C2. Decoding an input whose type field is not the value of a member of the
  message-type enumeration raises: a \<open>ValueError\<close> from the enum call when the field is
  there, a \<open>KeyError\<close> when it is missing. No message is returned. The code defines
  no exception class of its own; these exceptions are its protocol errors, which the read
  loop of the server catches and answers by disconnecting the sender.
\<close>

theorem decode_unknown_type_fails:
  assumes "\<forall>t. map_of kv ''type'' \<noteq> Some (JStr (MessageType_value t))"
  shows "from_dict E (JDict kv)
           = (case map_of kv ''type'' of
                None \<Rightarrow> Inl (KeyError ''type'')
              | Some _ \<Rightarrow> Inl (ValueError ''not a valid MessageType''))
       \<and> (json_loads E s = Some (JDict kv) \<longrightarrow> (\<forall>m. from_json E s \<noteq> Inr m))"
proof -
  have call: "MessageType_call v = Inl (ValueError ''not a valid MessageType'')"
    if "map_of kv ''type'' = Some v" for v
  proof (cases "MessageType_call v")
    case (Inl e)
    then show ?thesis
      by (auto simp: MessageType_call_def split: json.splits option.splits)
  next
    case (Inr t)
    with that assms MessageType_call_Inr show ?thesis by blast
  qed
  then have d: "from_dict E (JDict kv)
           = (case map_of kv ''type'' of
                None \<Rightarrow> Inl (KeyError ''type'')
              | Some _ \<Rightarrow> Inl (ValueError ''not a valid MessageType''))"
    by (simp add: from_dict_def split: option.splits)
  then show ?thesis
    by (auto simp: from_json_def split: option.splits)
qed

theorem decode_unknown_type_fails_witness:
  "from_dict demo_env (JDict [(''type'', JStr ''shutdown''), (''data'', JDict [])])
     = Inl (ValueError ''not a valid MessageType'')"
proof -
  have h: "\<forall>t. map_of [(''type'', JStr ''shutdown''), (''data'', JDict [])] ''type''
                \<noteq> Some (JStr (MessageType_value t))"
  proof
    fix t show "map_of [(''type'', JStr ''shutdown''), (''data'', JDict [])] ''type''
                \<noteq> Some (JStr (MessageType_value t))"
      by (cases t) simp_all
  qed
  show ?thesis
    using decode_unknown_type_fails [OF h, of demo_env] by simp
qed

text \<open>
  Claim C5. For a message of any type whose data is a dict (the empty one included) and
  whose participant id is any value, decoding its encoding gives a message with the same
  type, data and participant id. \<open>json.loads\<close> is taken to read back the document
  \<open>json.dumps\<close> wrote, and \<open>fromisoformat\<close> to accept what \<open>isoformat\<close> wrote.
\<close>

theorem decode_encode_roundtrip:
  assumes "json_loads E (json_dumps E (to_dict E m)) = Some (to_dict E m)"
      and "fromisoformat E (isoformat E (msg_timestamp m)) = Some ts"
      and "msg_data m = JDict kv"
  shows "\<exists>m'. from_json E (to_json E m) = Inr m'
           \<and> msg_type m' = msg_type m
           \<and> msg_data m' = msg_data m
           \<and> msg_participant_id m' = msg_participant_id m"
  using assms
  by (simp add: from_json_def to_json_def from_dict_def to_dict_def MessageType_call_value
      new_Message_def)

theorem decode_encode_roundtrip_witness:
  "\<exists>m'. from_json demo_env (to_json demo_env (new_Message 0 PING (JDict []) JNull None)) = Inr m'
         \<and> msg_type m' = PING \<and> msg_data m' = JDict [] \<and> msg_participant_id m' = JNull"
proof -
  let ?m = "new_Message 0 PING (JDict []) JNull None"
  have h1: "json_loads demo_env (json_dumps demo_env (to_dict demo_env ?m))
              = Some (to_dict demo_env ?m)"
    by (simp add: demo_env_def to_dict_def new_Message_def ping_doc_def)
  have h2: "fromisoformat demo_env (isoformat demo_env (msg_timestamp ?m)) = Some 0"
    by (simp add: demo_env_def new_Message_def)
  have h3: "msg_data ?m = JDict []"
    by (simp add: new_Message_def)
  show ?thesis
    using decode_encode_roundtrip [OF h1 h2 h3] by (simp add: new_Message_def)
qed

section \<open>Connection registry\<close>

lemma writes_disconnect_client: "writes (disconnect_client E s pid) = writes s"
  by (simp add: disconnect_client_def Let_def split: option.splits)

lemma connected_clients_disconnect_client:
  "connected_clients (disconnect_client E s pid) = AList.delete pid (connected_clients s)"
proof (cases "pid \<in> fst ` set (connected_clients s)")
  case True
  then show ?thesis
    by (simp add: disconnect_client_def Let_def split: option.splits)
next
  case False
  then have "AList.delete pid (connected_clients s) = connected_clients s"
    by (simp add: delete_id)
  with False show ?thesis
    by (simp add: disconnect_client_def Let_def split: option.splits)
qed

text \<open>
  Claim C7. \<open>send_message\<close> returns \<open>False\<close> and attempts no write when no handle is
  registered for the id; when the one write it attempts fails it returns \<open>False\<close>, having
  run \<open>_disconnect_client\<close>, after which no handle is registered for the id; when the
  write succeeds it returns \<open>True\<close>. In each case at most one write is attempted and
  nothing is kept for later.
\<close>

theorem send_message_outcomes:
  "(map_of (connected_clients s) pid = None \<longrightarrow> send_message E s pid m = (False, s))
   \<and> (map_of (connected_clients s) pid = Some ws \<and> \<not> send_text E ws m \<longrightarrow>
        send_message E s pid m
          = (False, disconnect_client E (s\<lparr>writes := writes s @ [(pid, m, False)]\<rparr>) pid)
        \<and> map_of (connected_clients (snd (send_message E s pid m))) pid = None
        \<and> writes (snd (send_message E s pid m)) = writes s @ [(pid, m, False)])
   \<and> (map_of (connected_clients s) pid = Some ws \<and> send_text E ws m \<longrightarrow>
        send_message E s pid m = (True, s\<lparr>writes := writes s @ [(pid, m, True)]\<rparr>))"
  by (simp add: send_message_def writes_disconnect_client connected_clients_disconnect_client
      delete_conv')

theorem send_message_outcomes_witness:
  "send_message demo_env demo_server ''P9'' demo_message = (False, demo_server)
   \<and> fst (send_message demo_env demo_server ''P1'' demo_message) = False
   \<and> connected_clients (snd (send_message demo_env demo_server ''P1'' demo_message))
        = [(''P2'', 1), (''P3'', 2)]
   \<and> send_message demo_env demo_server ''P2'' demo_message
        = (True, demo_server\<lparr>writes := [(''P2'', demo_message, True)]\<rparr>)"
proof -
  have h0: "map_of (connected_clients demo_server) ''P9'' = None"
    by (simp add: demo_server_def)
  have h1: "map_of (connected_clients demo_server) ''P1'' = Some 0
            \<and> \<not> send_text demo_env 0 demo_message"
    by (simp add: demo_server_def demo_env_def)
  have h2: "map_of (connected_clients demo_server) ''P2'' = Some 1
            \<and> send_text demo_env 1 demo_message"
    by (simp add: demo_server_def demo_env_def)
  have c: "connected_clients (disconnect_client demo_env
             (demo_server\<lparr>writes := writes demo_server @ [(''P1'', demo_message, False)]\<rparr>) ''P1'')
           = [(''P2'', 1), (''P3'', 2)]"
    by (simp add: disconnect_client_def demo_server_def Let_def AList.delete_eq)
  show ?thesis
    using send_message_outcomes [of demo_server "''P9''" demo_env demo_message 0]
      send_message_outcomes [of demo_server "''P1''" demo_env demo_message 0]
      send_message_outcomes [of demo_server "''P2''" demo_env demo_message 1]
      h0 h1 h2 c
    by (simp add: demo_server_def)
qed

lemma send_message_registered:
  assumes "map_of (connected_clients s) pid = Some ws"
  shows "writes (snd (send_message E s pid m)) = writes s @ [(pid, m, send_text E ws m)]"
    and "k \<noteq> pid \<Longrightarrow>
           map_of (connected_clients (snd (send_message E s pid m))) k
             = map_of (connected_clients s) k"
  using assms
  by (simp_all add: send_message_def writes_disconnect_client
      connected_clients_disconnect_client delete_conv')

lemma broadcast_loop_writes:
  assumes "distinct (map fst xs)"
      and "\<forall>(pid, ws) \<in> set xs. map_of (connected_clients s) pid = Some ws"
  shows "writes (broadcast_loop E m exclude (map fst xs) s)
           = writes s @ map (\<lambda>(pid, ws). (pid, m, send_text E ws m))
                            (filter (\<lambda>(pid, ws). pid \<notin> set exclude) xs)"
  using assms
proof (induction xs arbitrary: s)
  case Nil
  then show ?case by simp
next
  case (Cons x xs)
  obtain pid ws where x: "x = (pid, ws)" by (cases x)
  from Cons.prems x have reg: "map_of (connected_clients s) pid = Some ws"
    by simp
  from Cons.prems x have d: "distinct (map fst xs)" and notin: "pid \<notin> fst ` set xs"
    by auto
  show ?case
  proof (cases "pid \<in> set exclude")
    case True
    with Cons.IH [OF d, of s] Cons.prems x show ?thesis by auto
  next
    case False
    let ?s' = "snd (send_message E s pid m)"
    have "\<forall>(k, w) \<in> set xs. map_of (connected_clients ?s') k = Some w"
    proof (clarify)
      fix k w assume kw: "(k, w) \<in> set xs"
      with notin have "k \<noteq> pid" by force
      with send_message_registered(2) [OF reg] kw Cons.prems(2)
      show "map_of (connected_clients ?s') k = Some w" by auto
    qed
    from Cons.IH [OF d this] False x send_message_registered(1) [OF reg]
    show ?thesis by simp
  qed
qed

text \<open>
  Claim C8. \<open>broadcast_message\<close> walks the ids registered when it starts, in their order,
  skipping those in \<open>exclude\<close>, and attempts exactly one write to each of the others with
  that id's handle, whatever the outcome of the writes before; so no write is addressed to
  an excluded id or to an id without a registered handle.
\<close>

theorem broadcast_message_attempts:
  assumes "distinct (map fst (connected_clients s))"
  shows "writes (broadcast_message E s m exclude)
           = writes s @ map (\<lambda>(pid, ws). (pid, m, send_text E ws m))
                            (filter (\<lambda>(pid, ws). pid \<notin> set exclude) (connected_clients s))
       \<and> (\<forall>(pid, m', ok) \<in> set (drop (length (writes s)) (writes (broadcast_message E s m exclude))).
             pid \<notin> set exclude \<and> pid \<in> fst ` set (connected_clients s) \<and> m' = m)"
proof -
  have "\<forall>(pid, ws) \<in> set (connected_clients s). map_of (connected_clients s) pid = Some ws"
    using assms by auto
  from broadcast_loop_writes [OF assms this]
  have eq: "writes (broadcast_message E s m exclude)
           = writes s @ map (\<lambda>(pid, ws). (pid, m, send_text E ws m))
                            (filter (\<lambda>(pid, ws). pid \<notin> set exclude) (connected_clients s))"
    by (simp add: broadcast_message_def)
  then show ?thesis by force
qed

theorem broadcast_message_attempts_witness:
  "distinct (map fst (connected_clients demo_server))
   \<and> writes (broadcast_message demo_env demo_server demo_message [''P3''])
       = [(''P1'', demo_message, False), (''P2'', demo_message, True)]"
proof -
  have h: "distinct (map fst (connected_clients demo_server))"
    by (simp add: demo_server_def)
  show ?thesis
    using h broadcast_message_attempts [OF h, of demo_env demo_message "[''P3'']"]
    by (simp add: demo_server_def demo_env_def)
qed

section \<open>Registration\<close>

lemma find_update_by_key:
  assumes "find P xs = Some p" and "distinct (map k xs)" and "P (f p)"
  shows "find P (update_first (\<lambda>x. k x = k p) f xs) = Some (f p)"
  using assms
proof (induction xs)
  case Nil
  then show ?case by simp
next
  case (Cons x xs)
  show ?case
  proof (cases "P x")
    case True
    with Cons.prems show ?thesis by simp
  next
    case False
    with Cons.prems have "find P xs = Some p" by simp
    then have "p \<in> set xs" by (auto simp: find_Some_iff)
    with Cons.prems(2) have "k x \<noteq> k p" by force
    with False Cons show ?thesis by simp
  qed
qed

lemma find_update_other:
  assumes "p \<in> set xs" and "distinct (map k xs)" and "\<not> Q p" and "\<not> Q (f p)"
  shows "find Q (update_first (\<lambda>x. k x = k p) f xs) = find Q xs"
  using assms
proof (induction xs)
  case Nil
  then show ?case by simp
next
  case (Cons x xs)
  show ?case
  proof (cases "x = p")
    case True
    with Cons.prems show ?thesis by simp
  next
    case False
    with Cons.prems have "p \<in> set xs" by simp
    with Cons.prems(2) have "k x \<noteq> k p" by force
    with Cons \<open>p \<in> set xs\<close> show ?thesis by simp
  qed
qed

text \<open>
  Claim C3, as the code has it. For a REGISTER message whose payload is a dict that gives
  the name as a string or not at all, the handler checks in this order that the participant
  id is in the roster, that the supplied name (after \<open>str.strip\<close>) equals the roster
  name up to case (\<open>str.lower\<close> of both), and that a current exam session exists and is
  the participant's own. On the first check that fails it sends REGISTER_ACK with status
  \<open>rejected\<close> and the reason of that check, and writes nothing to the database. When
  all three pass and the database accepts the two host values, it stores
  \<open>computer_ip\<close> and \<open>computer_name\<close>, sets \<open>is_active\<close> and \<open>last_heartbeat\<close>
  on the participant's row, leaves every other row as it was, and sends REGISTER_ACK with
  status \<open>registered\<close>, the participant id and the exam session id.
\<close>

theorem handle_register_checks:
  assumes "msg_data message = JDict kv"
      and "(case map_of kv ''name'' of None \<Rightarrow> JStr [] | Some v \<Rightarrow> v) = JStr raw"
      and "distinct (map p_id (participants (db_manager app)))"
  shows
    "(get_participant (db_manager app) pid = None \<longrightarrow>
        handle_register_async E app pid message
          = (Inr (), app\<lparr>server := snd (send_message E (server app) pid
                   (rejected E pid (''ID Peserta '' @ pid @
                      '' tidak terdaftar. Silakan hubungi pengawas.'')))\<rparr>))
     \<and> (\<forall>p. get_participant (db_manager app) pid = Some p \<longrightarrow>
          (lower E (name p) \<noteq> lower E (strip E raw) \<longrightarrow>
             handle_register_async E app pid message
               = (Inr (), app\<lparr>server := snd (send_message E (server app) pid
                        (rejected E pid (''Nama tidak sesuai. Nama yang terdaftar: '' @ name p)))\<rparr>))
          \<and> (lower E (name p) = lower E (strip E raw)
               \<and> (no_session (current_session_id app)
                    \<or> current_session_id app \<noteq> Some (exam_session_id p)) \<longrightarrow>
             handle_register_async E app pid message
               = (Inr (), app\<lparr>server := snd (send_message E (server app) pid
                        (rejected E pid ''Sesi ujian tidak aktif atau tidak sesuai.''))\<rparr>))
          \<and> (\<forall>stored_ip stored_name.
               lower E (name p) = lower E (strip E raw)
               \<and> \<not> no_session (current_session_id app)
               \<and> current_session_id app = Some (exam_session_id p)
               \<and> bind_text (case map_of kv ''computer_ip'' of None \<Rightarrow> JStr [] | Some v \<Rightarrow> v)
                     = Inr stored_ip
               \<and> bind_text (case map_of kv ''computer_name'' of None \<Rightarrow> JStr [] | Some v \<Rightarrow> v)
                     = Inr stored_name \<longrightarrow>
             (\<exists>app'. handle_register_async E app pid message = (Inr (), app')
                \<and> get_participant (db_manager app') pid
                     = Some (p\<lparr>computer_ip := stored_ip,
                               computer_name := stored_name,
                               is_active := True,
                               last_heartbeat := utcnow E\<rparr>)
                \<and> (\<forall>q. q \<noteq> pid \<longrightarrow>
                       get_participant (db_manager app') q = get_participant (db_manager app) q)
                \<and> violations (db_manager app') = violations (db_manager app)
                \<and> permission_requests (db_manager app') = permission_requests (db_manager app)
                \<and> server app'
                     = snd (send_message E (server app) pid
                         (new_Message (utcnow E) REGISTER_ACK
                            (JDict [(''status'', JStr ''registered''),
                                    (''participant_id'', JStr pid),
                                    (''exam_session_id'', JInt (exam_session_id p))])
                            (JStr pid) None)))))
     \<and> (\<forall>msg. msg_type (rejected E pid msg) = REGISTER_ACK
                \<and> msg_data (rejected E pid msg)
                     = JDict [(''status'', JStr ''rejected''), (''message'', JStr msg)])"
proof (intro conjI allI impI)
  assume "get_participant (db_manager app) pid = None"
  then show "handle_register_async E app pid message
          = (Inr (), app\<lparr>server := snd (send_message E (server app) pid
                   (rejected E pid (''ID Peserta '' @ pid @
                      '' tidak terdaftar. Silakan hubungi pengawas.'')))\<rparr>)"
    using assms(1,2) by (simp add: handle_register_async_def dict_get_def Let_def)
next
  fix p
  assume "get_participant (db_manager app) pid = Some p"
    and "lower E (name p) \<noteq> lower E (strip E raw)"
  then show "handle_register_async E app pid message
               = (Inr (), app\<lparr>server := snd (send_message E (server app) pid
                        (rejected E pid (''Nama tidak sesuai. Nama yang terdaftar: '' @ name p)))\<rparr>)"
    using assms(1,2) by (simp add: handle_register_async_def dict_get_def Let_def)
next
  fix p
  assume "get_participant (db_manager app) pid = Some p"
    and "lower E (name p) = lower E (strip E raw)
               \<and> (no_session (current_session_id app)
                    \<or> current_session_id app \<noteq> Some (exam_session_id p))"
  then show "handle_register_async E app pid message
               = (Inr (), app\<lparr>server := snd (send_message E (server app) pid
                        (rejected E pid ''Sesi ujian tidak aktif atau tidak sesuai.''))\<rparr>)"
    using assms(1,2) by (auto simp: handle_register_async_def dict_get_def Let_def)
next
  fix p :: Participant and stored_ip stored_name
  let ?f = "\<lambda>p::Participant. p\<lparr>computer_ip := stored_ip, computer_name := stored_name,
                                is_active := True, last_heartbeat := utcnow E\<rparr>"
  let ?d = "db_manager app"
  let ?d' = "?d\<lparr>participants := update_first (\<lambda>x. p_id x = p_id p) ?f (participants ?d)\<rparr>"
  let ?ack = "new_Message (utcnow E) REGISTER_ACK
                (JDict [(''status'', JStr ''registered''), (''participant_id'', JStr pid),
                        (''exam_session_id'', JInt (exam_session_id p))])
                (JStr pid) None"
  assume p: "get_participant (db_manager app) pid = Some p"
    and ok: "lower E (name p) = lower E (strip E raw)
               \<and> \<not> no_session (current_session_id app)
               \<and> current_session_id app = Some (exam_session_id p)
               \<and> bind_text (case map_of kv ''computer_ip'' of None \<Rightarrow> JStr [] | Some v \<Rightarrow> v)
                     = Inr stored_ip
               \<and> bind_text (case map_of kv ''computer_name'' of None \<Rightarrow> JStr [] | Some v \<Rightarrow> v)
                     = Inr stored_name"
  from p have fp: "find (\<lambda>x. participant_id x = pid) (participants ?d) = Some p"
    by (simp add: get_participant_def)
  then have pin: "p \<in> set (participants ?d)" and ppid: "participant_id p = pid"
    by (auto simp: find_Some_iff)
  have run: "handle_register_async E app pid message
               = (Inr (), app\<lparr>db_manager := ?d',
                                server := snd (send_message E (server app) pid ?ack)\<rparr>)"
  proof -
    from ok have nm: "lower E (name p) = lower E (strip E raw)"
      and cs: "current_session_id app = Some (exam_session_id p)"
      and b1: "bind_text (case map_of kv ''computer_ip'' of None \<Rightarrow> JStr [] | Some v \<Rightarrow> v)
                 = Inr stored_ip"
      and b2: "bind_text (case map_of kv ''computer_name'' of None \<Rightarrow> JStr [] | Some v \<Rightarrow> v)
                 = Inr stored_name"
      by blast+
    from ok have "\<not> no_session (current_session_id app)" by blast
    then have ns: "\<not> no_session (Some (exam_session_id p))" unfolding cs .
    show ?thesis
      using assms(1,2) p nm cs ns b1 b2
      by (simp add: handle_register_async_def dict_get_def Let_def)
  qed
  have own: "get_participant ?d' pid = Some (?f p)"
    using find_update_by_key [OF fp assms(3), of ?f] ppid by (simp add: get_participant_def)
  have other: "get_participant ?d' q = get_participant ?d q" if "q \<noteq> pid" for q
    using find_update_other [OF pin assms(3), of "\<lambda>x. participant_id x = q" ?f] ppid that
    by (simp add: get_participant_def)
  show "\<exists>app'. handle_register_async E app pid message = (Inr (), app')
                \<and> get_participant (db_manager app') pid = Some (?f p)
                \<and> (\<forall>q. q \<noteq> pid \<longrightarrow>
                       get_participant (db_manager app') q = get_participant (db_manager app) q)
                \<and> violations (db_manager app') = violations (db_manager app)
                \<and> permission_requests (db_manager app') = permission_requests (db_manager app)
                \<and> server app' = snd (send_message E (server app) pid ?ack)"
    using run own other by simp
next
  fix msg
  show "msg_type (rejected E pid msg) = REGISTER_ACK"
    by (simp add: rejected_def new_Message_def)
  show "msg_data (rejected E pid msg)
          = JDict [(''status'', JStr ''rejected''), (''message'', JStr msg)]"
    by (simp add: rejected_def new_Message_def)
qed

theorem handle_register_checks_witness:
  "\<exists>app'. handle_register_async demo_env demo_app ''P1'' demo_register = (Inr (), app')
     \<and> get_participant (db_manager app') ''P1''
          = Some (demo_participant\<lparr>computer_ip := Text ''10.0.0.5'',
                                   computer_name := Text ''lab-pc'',
                                   is_active := True, last_heartbeat := 0\<rparr>)
     \<and> map (\<lambda>(pid, m, ok). (pid, msg_type m, msg_data m, ok)) (writes (server app'))
          = [(''P1'', REGISTER_ACK,
              JDict [(''status'', JStr ''registered''), (''participant_id'', JStr ''P1''),
                     (''exam_session_id'', JInt 7)], True)]"
proof -
  have h1: "msg_data demo_register
              = JDict [(''name'', JStr ''alice''), (''computer_ip'', JStr ''10.0.0.5''),
                       (''computer_name'', JStr ''lab-pc'')]"
    by (simp add: demo_register_def new_Message_def)
  have h2: "(case map_of [(''name'', JStr ''alice''), (''computer_ip'', JStr ''10.0.0.5''),
                          (''computer_name'', JStr ''lab-pc'')] ''name'' of
               None \<Rightarrow> JStr [] | Some v \<Rightarrow> v) = JStr ''alice''"
    by simp
  have h3: "distinct (map p_id (participants (db_manager demo_app)))"
    by (simp add: demo_app_def demo_db_def)
  have p: "get_participant (db_manager demo_app) ''P1'' = Some demo_participant"
    by (simp add: demo_app_def demo_db_def demo_participant_def get_participant_def)
  have ok: "lower demo_env (name demo_participant) = lower demo_env (strip demo_env ''alice'')
            \<and> \<not> no_session (current_session_id demo_app)
            \<and> current_session_id demo_app = Some (exam_session_id demo_participant)
            \<and> bind_text (case map_of [(''name'', JStr ''alice''), (''computer_ip'', JStr ''10.0.0.5''),
                          (''computer_name'', JStr ''lab-pc'')] ''computer_ip'' of
                  None \<Rightarrow> JStr [] | Some v \<Rightarrow> v) = Inr (Text ''10.0.0.5'')
            \<and> bind_text (case map_of [(''name'', JStr ''alice''), (''computer_ip'', JStr ''10.0.0.5''),
                          (''computer_name'', JStr ''lab-pc'')] ''computer_name'' of
                  None \<Rightarrow> JStr [] | Some v \<Rightarrow> v) = Inr (Text ''lab-pc'')"
    by (simp add: demo_participant_def demo_app_def no_session_def demo_env_def ascii_lower_def
        ascii_strip_def ascii_space_def bind_text_def)
  show ?thesis
    using handle_register_checks [OF h1 h2 h3, of "''P1''" demo_env] p ok
    by (auto simp: demo_app_def demo_env_def send_message_def new_Message_def demo_participant_def)
qed

text \<open>
  Claim C3 as stated fails for a REGISTER whose name is not a string: the handler calls
  \<open>strip\<close> on the name before its first check, so for a participant id that is not in
  the roster and the name \<open>null\<close> it raises \<open>AttributeError\<close>; no REGISTER_ACK with
  status \<open>rejected\<close> is sent.
\<close>

theorem register_without_string_name_raises:
  "get_participant (db_manager demo_app) ''P9'' = None
   \<and> handle_register_async demo_env demo_app ''P9''
         (new_Message 0 REGISTER (JDict [(''name'', JNull)]) (JStr ''P9'') None)
       = (Inl AttributeError, demo_app)"
  by (simp add: handle_register_async_def dict_get_def new_Message_def get_participant_def
      demo_app_def demo_db_def demo_participant_def)


section \<open>Automatic escalation\<close>

text \<open>
  Claim C1, at the scenario of the specification: \<open>P1\<close> is registered under exam session
  7 and connected, automatic escalation is on, the flag threshold is 3 and the lock
  threshold 5, and three reports arrive one after the other, \<open>P1\<close> connecting again
  before the second and the third. Each report is stored and the warning count goes up by
  one, so that after the third it is 3 and the participant is not locked, as the claim
  says. But the reports cause no message to be written to \<open>P1\<close>, neither a WARNING
  nor a flag warning: \<open>run_until_complete\<close> raises inside the running event loop of the
  server, right after the increment, and the read loop answers the exception by
  disconnecting \<open>P1\<close>.
\<close>

theorem violation_reports_send_nothing:
  "participants (db_manager (websocket_receive demo_env demo_app ''P1'' demo_report))
     = [demo_participant\<lparr>warning_count := 1, violation_count := 1, integrity_score := 95\<rparr>]
   \<and> server (websocket_receive demo_env demo_app ''P1'' demo_report)
       = \<lparr>connected_clients = [], client_info = [], writes = []\<rparr>
   \<and> map warning_count (participants (db_manager
         (websocket_receive demo_env
            (websocket_accept
               (websocket_receive demo_env
                  (websocket_accept
                     (websocket_receive demo_env demo_app ''P1'' demo_report) ''P1'' 2)
                  ''P1'' demo_report) ''P1'' 3)
            ''P1'' demo_report))) = [3]
   \<and> map is_locked (participants (db_manager
         (websocket_receive demo_env
            (websocket_accept
               (websocket_receive demo_env
                  (websocket_accept
                     (websocket_receive demo_env demo_app ''P1'' demo_report) ''P1'' 2)
                  ''P1'' demo_report) ''P1'' 3)
            ''P1'' demo_report))) = [False]
   \<and> server
         (websocket_receive demo_env
            (websocket_accept
               (websocket_receive demo_env
                  (websocket_accept
                     (websocket_receive demo_env demo_app ''P1'' demo_report) ''P1'' 2)
                  ''P1'' demo_report) ''P1'' 3)
            ''P1'' demo_report)
       = \<lparr>connected_clients = [], client_info = [], writes = []\<rparr>"
  by (simp add: websocket_receive_def websocket_accept_def handle_violation_report_async_def
      handle_violation_report_def demo_report_def new_Message_def dict_get_def
      ViolationType_call_def ViolationSeverity_call_def create_violation_def bind_text_def
      demo_participant_def get_participant_def app_update_integrity_score_def
      handle_violation_auto_def run_until_complete_def Let_def increment_warning_count_def
      disconnect_client_def demo_env_def demo_app_def demo_db_def next_id_def)

text \<open>
  With escalation off the handler still ends in an exception, the \<open>TypeError\<close> of
  awaiting \<open>None\<close>, after the violation is stored.
\<close>

lemma violation_report_async_always_raises:
  "\<exists>e. fst (handle_violation_report_async E app pid message) = Inl e"
  by (cases "handle_violation_report E True app pid message")
     (auto simp: handle_violation_report_async_def split: sum.splits)

text \<open>
  Called outside a running event loop, which the repository never does, the function sends
  its warning with the count read before the increment: at the third report the stored
  count becomes 3, the WARNING carries 2 and no flag warning follows.
\<close>

lemma stale_warning_count_outside_loop:
  "handle_violation_report demo_env False
     (demo_app\<lparr>db_manager := demo_db\<lparr>participants :=
                  [demo_participant\<lparr>warning_count := 2, violation_count := 2\<rparr>]\<rparr>\<rparr>)
     ''P1'' demo_report
   = (Inr (),
      demo_app\<lparr>db_manager :=
                 \<lparr>participants = [demo_participant\<lparr>warning_count := 3, violation_count := 3,
                                                    integrity_score := 81\<rparr>],
                  violations = [\<lparr>v_id = 1, v_participant_id = 1, v_exam_session_id = 7,
                                 violation_type = APPLICATION_BLOCKED, severity = MEDIUM,
                                 description = Text ''notepad.exe'', v_timestamp = 0,
                                 is_resolved = False\<rparr>],
                  permission_requests = []\<rparr>,
               server :=
                 \<lparr>connected_clients = [(''P1'', 1)], client_info = [],
                  writes = [(''P1'',
                             new_Message 0 WARNING
                               (JDict [(''message'', JStr ''Peringatan: notepad.exe''),
                                       (''warning_count'', JInt 2)]) (JStr ''P1'') None,
                             True)]\<rparr>\<rparr>)"
  by (simp add: handle_violation_report_def demo_report_def new_Message_def dict_get_def
      ViolationType_call_def ViolationSeverity_call_def create_violation_def bind_text_def
      demo_participant_def get_participant_def app_update_integrity_score_def
      handle_violation_auto_def run_until_complete_def Let_def increment_warning_count_def
      send_message_def format_description_def demo_env_def demo_app_def demo_db_def next_id_def)


section \<open>Reconnection client\<close>

lemma client_inv_new: "client_inv url pid (new_ProctoringClient url pid)"
  by (simp add: client_inv_def new_ProctoringClient_def)

lemma client_inv_step: "client_inv url pid c \<Longrightarrow> client_inv url pid (fst (step c e))"
  by (cases e)
     (auto simp: client_inv_def loop_head_def reconnect_def listen_def Let_def
           split: option.splits prod.splits if_splits)

lemma client_inv_run: "client_inv url pid c \<Longrightarrow> client_inv url pid (fst (run c es))"
proof (induction es arbitrary: c)
  case Nil
  then show ?case by simp
next
  case (Cons e es)
  from Cons.IH [OF client_inv_step [OF Cons.prems, of e]]
  show ?case by (simp add: split_beta Let_def)
qed

lemma stopped_step:
  assumes "\<not> running c \<or> location c = Spinning" and "\<not> is_CallStart e"
  shows "\<not> running (fst (step c e)) \<or> location (fst (step c e)) = Spinning"
    and "filter is_Connect (snd (step c e)) = []"
  using assms
  by (cases e;
      auto simp: loop_head_def reconnect_def listen_def Let_def
           split: option.splits prod.splits if_splits)+

lemma stopped_run:
  assumes "\<not> running c \<or> location c = Spinning" and "\<forall>e \<in> set es. \<not> is_CallStart e"
  shows "filter is_Connect (snd (run c es)) = []"
  using assms
proof (induction es arbitrary: c)
  case Nil
  then show ?case by simp
next
  case (Cons e es)
  from Cons.prems have e: "\<not> is_CallStart e" and es: "\<forall>e \<in> set es. \<not> is_CallStart e"
    by simp_all
  from Cons.IH [OF stopped_step(1) [OF Cons.prems(1) e] es] stopped_step(2) [OF Cons.prems(1) e]
  show ?case by (simp add: split_beta Let_def)
qed

lemma stopped_after_CallStop:
  "\<not> running (fst (step c (CallStop in_loop))) \<or> location (fst (step c (CallStop in_loop))) = Spinning"
  by (auto simp: listen_def reconnect_def loop_head_def split: option.splits)

text \<open>
  Claim C9, as the code has it. In every state the client reaches: \<open>start\<close> makes the
  first connection attempt at once, with no sleep before it; while the flag is set, a
  failed attempt, a failed send of REGISTER and the end of a connection (a failed or
  closed \<open>recv\<close>) are each followed by a sleep of 5 seconds, and the end of that sleep by
  the next attempt; every successful attempt is followed at once by the send of REGISTER
  with the participant id and the name and host data given to \<open>start\<close>; and after a call
  of \<open>stop\<close>, from the thread of the event loop or from another, no connection is
  attempted in any run in which \<open>start\<close> is not called again.
\<close>

theorem reconnect_discipline:
  "(let c = fst (run (new_ProctoringClient url pid) es);
        uri = url @ ''/ws/'' @ pid
    in (location c = NotStarted \<longrightarrow> snd (step c (CallStart nm ip cname)) = [Connect uri])
     \<and> (running c \<and> location c = InConnect \<longrightarrow>
           snd (step c ConnectRaises) = [Sleep 5]
           \<and> location (fst (step c ConnectRaises)) = InSleep)
     \<and> (running c \<and> location c = InSend \<longrightarrow>
           snd (step c SendRaises) = [Sleep 5]
           \<and> location (fst (step c SendRaises)) = InSleep)
     \<and> (running c \<and> location c = InRecv \<longrightarrow>
           snd (step c RecvRaises) = [Sleep 5]
           \<and> location (fst (step c RecvRaises)) = InSleep
           \<and> snd (step c (RecvReturns False)) = [Sleep 5]
           \<and> location (fst (step c (RecvReturns False))) = InSleep)
     \<and> (running c \<and> location c = InSleep \<longrightarrow>
           snd (step c SleepReturns) = [Connect uri]
           \<and> location (fst (step c SleepReturns)) = InConnect)
     \<and> (location c = InConnect \<longrightarrow>
           snd (step c (ConnectReturns ws now))
             = [Send (new_Message now REGISTER
                        (JDict [(''name'', fst (start_args c)),
                                (''computer_ip'', fst (snd (start_args c))),
                                (''computer_name'', snd (snd (start_args c)))])
                        (JStr pid) None)])
     \<and> (\<forall>in_loop es'. (\<forall>e \<in> set es'. \<not> is_CallStart e) \<longrightarrow>
            filter is_Connect (snd (run (fst (step c (CallStop in_loop))) es')) = []))"
proof -
  define c where "c = fst (run (new_ProctoringClient url pid) es)"
  have inv: "client_inv url pid c"
    unfolding c_def by (rule client_inv_run [OF client_inv_new])
  then have url: "server_url c = url" and pid: "client_participant_id c = pid"
    and five: "reconnect_interval c = 5"
    by (simp_all add: client_inv_def)
  have start: "location c = NotStarted \<longrightarrow>
                 snd (step c (CallStart nm ip cname)) = [Connect (url @ ''/ws/'' @ pid)]"
    using url pid by (simp add: loop_head_def)
  have fail: "running c \<and> location c = InConnect \<longrightarrow>
           snd (step c ConnectRaises) = [Sleep 5]
           \<and> location (fst (step c ConnectRaises)) = InSleep"
    using five by (simp add: reconnect_def)
  have sendfail: "running c \<and> location c = InSend \<longrightarrow>
           snd (step c SendRaises) = [Sleep 5]
           \<and> location (fst (step c SendRaises)) = InSleep"
    using five by (simp add: listen_def reconnect_def)
  have closed: "running c \<and> location c = InRecv \<longrightarrow>
           snd (step c RecvRaises) = [Sleep 5]
           \<and> location (fst (step c RecvRaises)) = InSleep
           \<and> snd (step c (RecvReturns False)) = [Sleep 5]
           \<and> location (fst (step c (RecvReturns False))) = InSleep"
    using five by (simp add: reconnect_def)
  have again: "running c \<and> location c = InSleep \<longrightarrow>
           snd (step c SleepReturns) = [Connect (url @ ''/ws/'' @ pid)]
           \<and> location (fst (step c SleepReturns)) = InConnect"
    using url pid by (simp add: loop_head_def)
  have reg: "location c = InConnect \<longrightarrow>
           snd (step c (ConnectReturns ws now))
             = [Send (new_Message now REGISTER
                        (JDict [(''name'', fst (start_args c)),
                                (''computer_ip'', fst (snd (start_args c))),
                                (''computer_name'', snd (snd (start_args c)))])
                        (JStr pid) None)]"
    using pid by (simp add: register_message_def split_beta Let_def)
  have never: "\<forall>in_loop es'. (\<forall>e \<in> set es'. \<not> is_CallStart e) \<longrightarrow>
            filter is_Connect (snd (run (fst (step c (CallStop in_loop))) es')) = []"
    using stopped_run [OF stopped_after_CallStop] by blast
  show ?thesis
    unfolding Let_def c_def [symmetric]
    using start fail sendfail closed again reg never by blast
qed

text \<open>
  A run: start, a refused attempt, the sleep, a successful attempt and registration, the
  connection closed, the sleep, \<open>stop\<close> from another thread during the next attempt,
  which then succeeds.
\<close>

theorem reconnect_discipline_witness:
  "snd (run (new_ProctoringClient ''ws://10.0.0.1:8765'' ''P1'')
          [CallStart (JStr ''Alice'') (JStr ''10.0.0.5'') (JStr ''lab-pc''),
           ConnectRaises, SleepReturns, ConnectReturns 4 0, SendReturns, RecvRaises,
           SleepReturns, CallStop False, ConnectReturns 5 9, SendReturns, SleepReturns])
     = [Connect ''ws://10.0.0.1:8765/ws/P1'',
        Sleep 5,
        Connect ''ws://10.0.0.1:8765/ws/P1'',
        Send (new_Message 0 REGISTER
                (JDict [(''name'', JStr ''Alice''), (''computer_ip'', JStr ''10.0.0.5''),
                        (''computer_name'', JStr ''lab-pc'')]) (JStr ''P1'') None),
        Sleep 5,
        Connect ''ws://10.0.0.1:8765/ws/P1'',
        Raise RuntimeError,
        Send (new_Message 9 REGISTER
                (JDict [(''name'', JStr ''Alice''), (''computer_ip'', JStr ''10.0.0.5''),
                        (''computer_name'', JStr ''lab-pc'')]) (JStr ''P1'') None)]
   \<and> filter is_Connect
         (snd (run (fst (step (fst (run (new_ProctoringClient ''ws://10.0.0.1:8765'' ''P1'')
                 [CallStart (JStr ''Alice'') (JStr ''10.0.0.5'') (JStr ''lab-pc''),
                  ConnectRaises])) (CallStop True)))
               [SleepReturns, ConnectRaises, RunDisconnect, CloseReturns]))
       = []"
proof -
  have h: "\<forall>e \<in> set [SleepReturns, ConnectRaises, RunDisconnect, CloseReturns]. \<not> is_CallStart e"
    by simp
  have r: "snd (run (new_ProctoringClient ''ws://10.0.0.1:8765'' ''P1'')
          [CallStart (JStr ''Alice'') (JStr ''10.0.0.5'') (JStr ''lab-pc''),
           ConnectRaises, SleepReturns, ConnectReturns 4 0, SendReturns, RecvRaises,
           SleepReturns, CallStop False, ConnectReturns 5 9, SendReturns, SleepReturns])
     = [Connect ''ws://10.0.0.1:8765/ws/P1'',
        Sleep 5,
        Connect ''ws://10.0.0.1:8765/ws/P1'',
        Send (new_Message 0 REGISTER
                (JDict [(''name'', JStr ''Alice''), (''computer_ip'', JStr ''10.0.0.5''),
                        (''computer_name'', JStr ''lab-pc'')]) (JStr ''P1'') None),
        Sleep 5,
        Connect ''ws://10.0.0.1:8765/ws/P1'',
        Raise RuntimeError,
        Send (new_Message 9 REGISTER
                (JDict [(''name'', JStr ''Alice''), (''computer_ip'', JStr ''10.0.0.5''),
                        (''computer_name'', JStr ''lab-pc'')]) (JStr ''P1'') None)]"
    by (simp add: new_ProctoringClient_def loop_head_def reconnect_def listen_def
        register_message_def Let_def)
  show ?thesis
    using r h reconnect_discipline [of "''ws://10.0.0.1:8765''" "''P1''"
        "[CallStart (JStr ''Alice'') (JStr ''10.0.0.5'') (JStr ''lab-pc''), ConnectRaises]"]
    unfolding Let_def by blast
qed

text \<open>
  Claim C9 as stated fails at the initial state: with the flag just set by \<open>start\<close> and
  no transport, the client attempts the connection at once; no sleep of 5 seconds comes
  before the attempt.
\<close>

theorem first_attempt_without_backoff:
  "snd (step (new_ProctoringClient ''ws://10.0.0.1:8765'' ''P1'')
          (CallStart (JStr ''Alice'') (JStr ''10.0.0.5'') (JStr ''lab-pc'')))
     = [Connect ''ws://10.0.0.1:8765/ws/P1'']"
  by (simp add: new_ProctoringClient_def loop_head_def)

end
